theory Spec2Isabelle
  imports Main "HOL-Library.Word"
begin

section \<open>The OSM layer of ogrosmlayer.cpp\<close>

text \<open>
  A shallow embedding of \<^verbatim>\<open>OGROSMLayer\<close> (ogr/ogrsf_frmts/osm/ogrosmlayer.cpp):
  the per-layer feature array with its two thresholds, the interleaved reading
  logic of \<^verbatim>\<open>MyGetNextFeature\<close>, the projection of OSM tags onto fields with the
  other\_tags / all\_tags aggregate, and the computed attributes with the hardcoded
  z-order formula.

  Classes that the file only calls into (\<^verbatim>\<open>OGRFeature\<close>, \<^verbatim>\<open>OGRFeatureDefn\<close>, SQLite,
  the data source's chunk parser) are not part of it; what the layer code needs of them
  is modelled below as plain data, and their behaviour is passed in as a parameter where
  the layer code depends on it.
\<close>

subsection \<open>Constants\<close>

definition SWITCH_THRESHOLD :: nat where
  "SWITCH_THRESHOLD = 10000"

definition MAX_THRESHOLD :: nat where
  "MAX_THRESHOLD = 100000"

subsection \<open>Features\<close>

text \<open>
  A \<^verbatim>\<open>double\<close> is only ever handed on (from a result column to a field, from a field to
  a bound parameter), so it is kept as its 64-bit pattern.
\<close>

type_synonym double = "64 word"

text \<open>
  Modelled from the spec: \<^verbatim>\<open>OGRFeature\<close> is declared in ogr\_feature.h and implemented
  outside ogrosmlayer.cpp. The spec has the record as an array of typed, nullable
  field-value slots. The value of a slot is tagged with the overload of \<^verbatim>\<open>SetField\<close>
  that wrote it: \<^verbatim>\<open>int\<close>, \<^verbatim>\<open>GIntBig\<close>, \<^verbatim>\<open>double\<close> or \<^verbatim>\<open>const char *\<close>.
\<close>

datatype field_value =
    VInteger int
  | VInteger64 int
  | VReal double
  | VString string

text \<open>
  Modelled from the spec: the feature (\<^verbatim>\<open>OGRFeature\<close>, not in ogrosmlayer.cpp) is its
  numeric id and its field slots, addressed by field index; \<open>None\<close> is an unset slot.
\<close>

record OGRFeature =
  nFID :: int
  pauFields :: "int \<Rightarrow> field_value option"

text \<open>
  Modelled from the spec: \<^verbatim>\<open>OGRFeature::SetField(int, ...)\<close> and
  \<^verbatim>\<open>OGRFeature::IsFieldSetAndNotNull(int)\<close>, which are not in ogrosmlayer.cpp.
  \<^verbatim>\<open>SetField\<close> writes the slot; an index that names no field (the layer code uses
  \<open>-1\<close> for "no such field") is ignored by the feature. A slot is set once written.
\<close>

definition SetField :: "OGRFeature \<Rightarrow> int \<Rightarrow> field_value \<Rightarrow> OGRFeature" where
  "SetField poFeature iField v =
     (if iField < 0 then poFeature
      else poFeature\<lparr>pauFields := (pauFields poFeature)(iField := Some v)\<rparr>)"

definition IsFieldSetAndNotNull :: "OGRFeature \<Rightarrow> int \<Rightarrow> bool" where
  "IsFieldSetAndNotNull poFeature iField \<longleftrightarrow>
     0 \<le> iField \<and> pauFields poFeature iField \<noteq> None"

subsection \<open>SQLite values and prepared statements\<close>

datatype sql_value =
    SQLITE_INTEGER int
  | SQLITE_FLOAT double
  | SQLITE_TEXT string
  | SQLITE_BLOB string
  | SQLITE_NULL

text \<open>
  What \<^verbatim>\<open>sqlite3_step\<close> returns: a row (with its columns, so that
  \<^verbatim>\<open>sqlite3_column_count\<close> is the length of the row and \<^verbatim>\<open>sqlite3_column_type(0)\<close> the
  constructor of its first column), the end of the result set, or an error code.
\<close>

datatype step_result =
    SQLITE_ROW "sql_value list"
  | SQLITE_DONE
  | SQLITE_ERROR int

text \<open>
  A prepared statement: the SQL text it was compiled from, the values bound to its
  positional parameters (numbered from 1), and whether it has been stepped since the
  last \<^verbatim>\<open>sqlite3_reset\<close>.
\<close>

record sqlite3_stmt =
  stmt_sql :: string
  stmt_bound :: "nat \<Rightarrow> sql_value"
  stmt_stepped :: bool

definition sqlite3_bind :: "sqlite3_stmt \<Rightarrow> nat \<Rightarrow> sql_value \<Rightarrow> sqlite3_stmt" where
  "sqlite3_bind hStmt i v = hStmt\<lparr>stmt_bound := (stmt_bound hStmt)(i := v)\<rparr>"

definition sqlite3_reset :: "sqlite3_stmt \<Rightarrow> sqlite3_stmt" where
  "sqlite3_reset hStmt = hStmt\<lparr>stmt_stepped := False\<rparr>"

text \<open>
  The engine itself is a parameter: it maps the SQL text and the bound values to the
  outcome of the step.
\<close>

type_synonym sql_engine = "string \<Rightarrow> (nat \<Rightarrow> sql_value) \<Rightarrow> step_result"

definition sqlite3_step :: "sql_engine \<Rightarrow> sqlite3_stmt \<Rightarrow> step_result \<times> sqlite3_stmt" where
  "sqlite3_step engine hStmt =
     (engine (stmt_sql hStmt) (stmt_bound hStmt), hStmt\<lparr>stmt_stepped := True\<rparr>)"

subsection \<open>The layer\<close>

text \<open>
  Modelled from the spec: the field types (ogr\_core.h) that ogrosmlayer.cpp tells apart
  when it binds a field, and the class \<^verbatim>\<open>OGROSMComputedAttribute\<close> (ogr\_osm.h) with
  the members that ogrosmlayer.cpp assigns; neither header is among the sources. The
  statement handle \<^verbatim>\<open>hStmt\<close> is owned by the attribute alone, so the attribute holds the
  state of the statement.
\<close>

datatype OGRFieldType = OFTInteger | OFTInteger64 | OFTReal | OFTString

record OGROSMComputedAttribute =
  osName :: string
  nIndex :: int
  eType :: OGRFieldType
  osSQL :: string
  hStmt :: sqlite3_stmt
  aosAttrToBind :: "string list"
  anIndexToBind :: "int list"
  bHardcodedZOrder :: bool

text \<open>
  Modelled from the spec: \<^verbatim>\<open>OGROSMLayer\<close> is declared in ogr\_osm.h, which is not among
  the sources; these are the members that the functions below read or write.
  \<^verbatim>\<open>m_apoFeatures\<close> is a vector of owning pointers: a slot whose feature has been moved
  out holds \<open>None\<close>. \<^verbatim>\<open>m_poFeatureDefn\<close> is the list of field definitions (name and
  type) in index order. \<^verbatim>\<open>m_oMapFieldNameToIndex\<close> holds the indices that \<^verbatim>\<open>AddField\<close>
  stores, which are not negative. \<^verbatim>\<open>aoSetIgnoreKeys\<close> is a map keyed by the content of the
  key, used as a set.
\<close>

record OGROSMLayer =
  m_apoFeatures :: "OGRFeature option list"
  m_nFeatureArrayIndex :: nat
  m_bHasWarnedTooManyFeatures :: bool
  m_bResetReadingAllowed :: bool
  m_poFeatureDefn :: "(string \<times> OGRFieldType) list"
  m_oMapFieldNameToIndex :: "string \<Rightarrow> nat option"
  m_nIndexOSMId :: int
  m_nIndexOSMWayId :: int
  m_nIndexOtherTags :: int
  m_nIndexAllTags :: int
  aoSetIgnoreKeys :: "string set"
  m_oComputedAttributes :: "OGROSMComputedAttribute list"

text \<open>
  Modelled from the spec: the errors raised through \<^verbatim>\<open>CPLError\<close> (cpl\_error.h, not among
  the sources), as the error class and the error number; an error of class
  \<^verbatim>\<open>CE_Failure\<close> is reported and the caller goes on.
\<close>

datatype CPLErr = CE_Warning | CE_Failure | CE_Fatal

datatype CPLErrorNum = CPLE_AppDefined | CPLE_OutOfMemory

subsection \<open>AddToArray\<close>

text \<open>
  \<^verbatim>\<open>AddToArray(poFeature, bCheckFeatureThreshold)\<close>. The third argument says whether
  \<^verbatim>\<open>push_back\<close> gets its memory; when it does not, the exception is caught, an
  out-of-memory error is raised and the array is as before. The result is the returned
  flag, the errors raised, and the layer.
\<close>

definition AddToArray ::
  "OGROSMLayer \<Rightarrow> OGRFeature \<Rightarrow> bool \<Rightarrow> bool \<Rightarrow> bool \<times> (CPLErr \<times> CPLErrorNum) list \<times> OGROSMLayer"
where
  "AddToArray l poFeature bCheckFeatureThreshold push_back_ok =
     (if bCheckFeatureThreshold \<and> length (m_apoFeatures l) > MAX_THRESHOLD then
        (False,
         (if \<not> m_bHasWarnedTooManyFeatures l then [(CE_Failure, CPLE_AppDefined)] else []),
         l\<lparr>m_bHasWarnedTooManyFeatures := True\<rparr>)
      else if push_back_ok then
        (True, [], l\<lparr>m_apoFeatures := m_apoFeatures l @ [Some poFeature]\<rparr>)
      else
        (False, [(CE_Failure, CPLE_OutOfMemory)], l))"

text \<open>
  A sequence of calls of \<^verbatim>\<open>AddToArray\<close> on one layer, each with its feature and its
  allocation outcome, all with the same \<^verbatim>\<open>bCheckFeatureThreshold\<close>.
\<close>

fun AddToArray_seq :: "bool \<Rightarrow> OGROSMLayer \<Rightarrow> (OGRFeature \<times> bool) list \<Rightarrow> OGROSMLayer" where
  "AddToArray_seq bCheck l [] = l"
| "AddToArray_seq bCheck l ((poFeature, ok) # ops) =
     AddToArray_seq bCheck (snd (snd (AddToArray l poFeature bCheck ok))) ops"

subsection \<open>Taking the next feature out of the array\<close>

text \<open>
  The end of \<^verbatim>\<open>MyGetNextFeature\<close> (from \<^verbatim>\<open>std::move(m_apoFeatures[m_nFeatureArrayIndex])\<close>
  on), reached with a non-empty array: the feature at the cursor is moved out, the cursor
  advances, and when it reaches the size of the array the array is cleared and the
  cursor goes back to 0. Reading the vector outside its bounds has no defined behaviour
  in C++; the model returns no feature and leaves the layer as it is.
\<close>

definition TakeFeature :: "OGROSMLayer \<Rightarrow> OGRFeature option \<times> OGROSMLayer" where
  "TakeFeature l =
     (let i = m_nFeatureArrayIndex l in
      if i < length (m_apoFeatures l) then
        (let poFeature = m_apoFeatures l ! i;
             l1 = l\<lparr>m_apoFeatures := (m_apoFeatures l)[i := None],
                    m_nFeatureArrayIndex := i + 1\<rparr>
         in if m_nFeatureArrayIndex l1 = length (m_apoFeatures l1)
            then (poFeature, l1\<lparr>m_nFeatureArrayIndex := 0, m_apoFeatures := []\<rparr>)
            else (poFeature, l1))
      else (None, l))"

text \<open>Taking \<open>n\<close> features in a row; the features come out in the order of the calls.\<close>

fun TakeFeature_n :: "nat \<Rightarrow> OGROSMLayer \<Rightarrow> OGRFeature option list \<times> OGROSMLayer" where
  "TakeFeature_n 0 l = ([], l)"
| "TakeFeature_n (Suc n) l =
     (case TakeFeature l of (poFeature, l1) \<Rightarrow>
        (case TakeFeature_n n l1 of (rest, l2) \<Rightarrow> (poFeature # rest, l2)))"

subsection \<open>The data source and MyGetNextFeature\<close>

text \<open>
  Modelled from the spec: \<^verbatim>\<open>OGROSMDataSource\<close> is declared in ogr\_osm.h, which is not
  among the sources; these are the members that the layer uses. A layer is named by its
  index in \<^verbatim>\<open>m_apoLayers\<close> (its \<^verbatim>\<open>m_nIdxLayer\<close>), so the current layer is an optional
  index and comparing a layer pointer with \<^verbatim>\<open>this\<close> is comparing indices.
  \<open>m_stream\<close> stands for the state of the input that the chunk parser reads.
\<close>

record 's OGROSMDataSource =
  m_apoLayers :: "OGROSMLayer list"
  m_poCurrentLayer :: "nat option"
  m_bInterleavedReading :: bool
  m_bTagsAsHSTORE :: bool
  m_stream :: 's

text \<open>
  \<^verbatim>\<open>OGROSMDataSource::ParseNextChunk(nIdxLayer, ...)\<close> belongs to the data source and is
  not among the sources; it is a parameter here: any function from the layer index and
  the data source to the returned flag and the data source afterwards.
\<close>

type_synonym 's chunk_parser =
  "nat \<Rightarrow> 's OGROSMDataSource \<Rightarrow> bool \<times> 's OGROSMDataSource"

definition this_layer :: "'s OGROSMDataSource \<Rightarrow> nat \<Rightarrow> OGROSMLayer" where
  "this_layer poDS this = m_apoLayers poDS ! this"

definition update_layer ::
  "'s OGROSMDataSource \<Rightarrow> nat \<Rightarrow> OGROSMLayer \<Rightarrow> 's OGROSMDataSource" where
  "update_layer poDS this l = poDS\<lparr>m_apoLayers := (m_apoLayers poDS)[this := l]\<rparr>"

text \<open>
  The two \<^verbatim>\<open>for\<close> loops over the layers of the data source: the index of the first layer
  other than \<^verbatim>\<open>this\<close> that satisfies the test, the layers being numbered from \<open>i\<close> on.
\<close>

fun FindOtherLayer :: "(OGROSMLayer \<Rightarrow> bool) \<Rightarrow> nat \<Rightarrow> nat \<Rightarrow> OGROSMLayer list \<Rightarrow> nat option" where
  "FindOtherLayer test this i [] = None"
| "FindOtherLayer test this i (l # ls) =
     (if i \<noteq> this \<and> test l then Some i else FindOtherLayer test this (Suc i) ls)"

definition TooManyFeatures :: "OGROSMLayer \<Rightarrow> bool" where
  "TooManyFeatures l \<longleftrightarrow> length (m_apoFeatures l) > SWITCH_THRESHOLD"

definition HasFeatures :: "OGROSMLayer \<Rightarrow> bool" where
  "HasFeatures l \<longleftrightarrow> m_apoFeatures l \<noteq> []"

text \<open>
  The \<^verbatim>\<open>while (true)\<close> loop of the non-interleaved branch: parse chunks until the array
  of this layer is non-empty (result flag \<open>True\<close>) or the parser returns \<^verbatim>\<open>FALSE\<close> with
  the array still empty (result flag \<open>False\<close>). The loop need not end, so the function is
  partial: \<open>None\<close> is a loop that runs forever.
\<close>

partial_function (option) ParseUntilFeature ::
  "'s chunk_parser \<Rightarrow> nat \<Rightarrow> 's OGROSMDataSource \<Rightarrow> (bool \<times> 's OGROSMDataSource) option"
where
  "ParseUntilFeature ParseNextChunk this poDS =
     (case ParseNextChunk this poDS of
        (bRet, poDS1) \<Rightarrow>
          if m_apoFeatures (this_layer poDS1 this) \<noteq> [] then Some (True, poDS1)
          else if \<not> bRet then Some (False, poDS1)
          else ParseUntilFeature ParseNextChunk this poDS1)"

text \<open>The end of the function, on the layer inside the data source.\<close>

definition TakeFeatureOf ::
  "'s OGROSMDataSource \<Rightarrow> nat \<Rightarrow> nat option \<Rightarrow> OGRFeature option \<times> nat option \<times> 's OGROSMDataSource" where
  "TakeFeatureOf poDS this poNewCurLayer =
     (case TakeFeature (this_layer poDS this) of
        (poFeature, l) \<Rightarrow> (poFeature, poNewCurLayer, update_layer poDS this l))"

text \<open>
  \<^verbatim>\<open>MyGetNextFeature(ppoNewCurLayer, ...)\<close> on layer \<^verbatim>\<open>this\<close>. The result is the returned
  feature (\<open>None\<close> for \<^verbatim>\<open>nullptr\<close>), the value left in \<^verbatim>\<open>*ppoNewCurLayer\<close>, and the data
  source afterwards; the outer \<open>None\<close> is the non-interleaved loop running forever.
\<close>

definition MyGetNextFeature ::
  "'s chunk_parser \<Rightarrow> 's OGROSMDataSource \<Rightarrow> nat \<Rightarrow>
     (OGRFeature option \<times> nat option \<times> 's OGROSMDataSource) option" where
  "MyGetNextFeature ParseNextChunk poDS0 this =
     (let poNewCurLayer = m_poCurrentLayer poDS0;
          poDS = update_layer poDS0 this ((this_layer poDS0 this)\<lparr>m_bResetReadingAllowed := True\<rparr>)
      in
      if m_apoFeatures (this_layer poDS this) = [] then
        if m_bInterleavedReading poDS then
          if poNewCurLayer \<noteq> None \<and> poNewCurLayer \<noteq> Some this then
            Some (None, poNewCurLayer, poDS)
          else
            (case FindOtherLayer TooManyFeatures this 0 (m_apoLayers poDS) of
               Some i \<Rightarrow> Some (None, Some i, poDS)
             | None \<Rightarrow>
                 (let poDS1 = snd (ParseNextChunk this poDS) in
                  if m_apoFeatures (this_layer poDS1 this) = [] then
                    (case FindOtherLayer HasFeatures this 0 (m_apoLayers poDS1) of
                       Some i \<Rightarrow> Some (None, Some i, poDS1)
                     | None \<Rightarrow> Some (None, None, poDS1))
                  else Some (TakeFeatureOf poDS1 this (Some this))))
        else
          (case ParseUntilFeature ParseNextChunk this poDS of
             None \<Rightarrow> None
           | Some (bFound, poDS1) \<Rightarrow>
               if bFound then Some (TakeFeatureOf poDS1 this poNewCurLayer)
               else Some (None, poNewCurLayer, poDS1))
      else Some (TakeFeatureOf poDS this poNewCurLayer))"

text \<open>\<^verbatim>\<open>GetNextFeature()\<close>: the new current layer is stored in the data source.\<close>

definition GetNextFeature ::
  "'s chunk_parser \<Rightarrow> 's OGROSMDataSource \<Rightarrow> nat \<Rightarrow>
     (OGRFeature option \<times> 's OGROSMDataSource) option" where
  "GetNextFeature ParseNextChunk poDS this =
     (case MyGetNextFeature ParseNextChunk poDS this of
        None \<Rightarrow> None
      | Some (poFeature, poNewCurLayer, poDS1) \<Rightarrow>
          Some (poFeature, poDS1\<lparr>m_poCurrentLayer := poNewCurLayer\<rparr>))"

subsection \<open>Fields added by AddField\<close>

text \<open>
  \<^verbatim>\<open>GetLaunderedFieldName(pszName)\<close>. The first argument is
  \<^verbatim>\<open>m_poDS->DoesAttributeNameLaundering()\<close>; the second is
  \<^verbatim>\<open>sizeof(szLaunderedFieldName)\<close>, the size of the member array that takes the copy
  (declared in ogr\_osm.h, which is not among the sources).
\<close>

definition GetLaunderedFieldName :: "bool \<Rightarrow> nat \<Rightarrow> string \<Rightarrow> string" where
  "GetLaunderedFieldName bAttributeNameLaundering sizeof_szLaunderedFieldName pszName =
     (if bAttributeNameLaundering \<and> CHR '':'' \<in> set pszName then
        map (\<lambda>c. if c = CHR '':'' then CHR ''_'' else c)
          (take (sizeof_szLaunderedFieldName - 1) pszName)
      else pszName)"

text \<open>
  \<^verbatim>\<open>AddField(pszName, eFieldType, eSubType)\<close>. The field definition gets the laundered
  name; \<^verbatim>\<open>m_oMapFieldNameToIndex\<close> gets the name as given, with the index of the new
  field. The subtype goes into the field definition and is read by nothing here.
\<close>

definition AddField ::
  "bool \<Rightarrow> nat \<Rightarrow> OGROSMLayer \<Rightarrow> string \<Rightarrow> OGRFieldType \<Rightarrow> OGROSMLayer" where
  "AddField bAttributeNameLaundering sizeof_szLaunderedFieldName l pszName eFieldType =
     (let pszLaunderedName =
            GetLaunderedFieldName bAttributeNameLaundering sizeof_szLaunderedFieldName pszName;
          l1 = l\<lparr>m_poFeatureDefn := m_poFeatureDefn l @ [(pszLaunderedName, eFieldType)]\<rparr>;
          nIndex = length (m_poFeatureDefn l1) - 1;
          l2 = l1\<lparr>m_oMapFieldNameToIndex := (m_oMapFieldNameToIndex l1)(pszName \<mapsto> nIndex)\<rparr>
      in if pszName = ''osm_id'' then l2\<lparr>m_nIndexOSMId := int nIndex\<rparr>
         else if pszName = ''osm_way_id'' then l2\<lparr>m_nIndexOSMWayId := int nIndex\<rparr>
         else if pszName = ''other_tags'' then l2\<lparr>m_nIndexOtherTags := int nIndex\<rparr>
         else if pszName = ''all_tags'' then l2\<lparr>m_nIndexAllTags := int nIndex\<rparr>
         else l2)"

subsection \<open>Tags and the aggregate of the other tags\<close>

text \<open>
  Modelled from the spec: \<^verbatim>\<open>OSMTag\<close> (osm\_parser.h, not among the sources) is a key and
  a value, both strings.
\<close>

record OSMTag =
  pszK :: string
  pszV :: string

text \<open>\<^verbatim>\<open>GetFieldIndex(pszName)\<close>: the lookup in \<^verbatim>\<open>m_oMapFieldNameToIndex\<close>, \<open>-1\<close> when absent.\<close>

definition GetFieldIndex :: "OGROSMLayer \<Rightarrow> string \<Rightarrow> int" where
  "GetFieldIndex l pszName =
     (case m_oMapFieldNameToIndex l pszName of Some i \<Rightarrow> int i | None \<Rightarrow> -1)"

text \<open>
  \<^verbatim>\<open>AddInOtherOrAllTags(pszK)\<close>. \<^verbatim>\<open>strchr\<close> finds the first colon; the key is cut right
  after it for the second lookup.
\<close>

definition AddInOtherOrAllTags :: "OGROSMLayer \<Rightarrow> string \<Rightarrow> bool" where
  "AddInOtherOrAllTags l k =
     (if k \<notin> aoSetIgnoreKeys l then
        (if CHR '':'' \<in> set k then
           takeWhile (\<lambda>c. c \<noteq> CHR '':'') k @ '':'' \<notin> aoSetIgnoreKeys l
         else True)
      else False)"

definition chQuote :: char where
  "chQuote = CHR 0x22"

definition chBackslash :: char where
  "chBackslash = CHR 0x5C"

definition OGROSMEscapeStringHSTORE :: "string \<Rightarrow> string \<Rightarrow> string" where
  "OGROSMEscapeStringHSTORE v sOut =
     sOut @ [chQuote]
       @ concat (map (\<lambda>c. if c = chQuote \<or> c = chBackslash then [chBackslash, c] else [c]) v)
       @ [chQuote]"

definition hex_digit :: "nat \<Rightarrow> char" where
  "hex_digit n = ''0123456789ABCDEF'' ! (n mod 16)"

text \<open>One character of \<^verbatim>\<open>OGROSMEscapeStringJSON\<close>; \<^verbatim>\<open>"\\u%04X"\<close> of a character below 32.\<close>

definition escape_json_char :: "char \<Rightarrow> string" where
  "escape_json_char ch =
     (if ch = chQuote then [chBackslash, chQuote]
      else if ch = chBackslash then [chBackslash, chBackslash]
      else if ch = CHR 0x0A then [chBackslash, CHR ''n'']
      else if ch = CHR 0x0D then [chBackslash, CHR ''r'']
      else if ch = CHR 0x09 then [chBackslash, CHR ''t'']
      else if (of_char ch :: nat) < 32 then
        [chBackslash, CHR ''u'', CHR ''0'', CHR ''0'',
         hex_digit (of_char ch div 16), hex_digit (of_char ch)]
      else [ch])"

definition OGROSMEscapeStringJSON :: "string \<Rightarrow> string \<Rightarrow> string" where
  "OGROSMEscapeStringJSON v sOut =
     sOut @ [chQuote] @ concat (map escape_json_char v) @ [chQuote]"

text \<open>
  The body of the loop over the tags in \<^verbatim>\<open>SetFieldsFromTags\<close>, on the feature and
  \<^verbatim>\<open>m_osAllTagsBuffer\<close>.
\<close>

definition SetFieldsFromTags_tag ::
  "OGROSMLayer \<Rightarrow> bool \<Rightarrow> OSMTag \<Rightarrow> OGRFeature \<times> string \<Rightarrow> OGRFeature \<times> string" where
  "SetFieldsFromTags_tag l bTagsAsHSTORE tag st =
     (case st of (poFeature, osAllTagsBuffer) \<Rightarrow>
       (let nIdx = GetFieldIndex l (pszK tag);
            bField = (nIdx \<ge> 0 \<and> nIdx \<noteq> m_nIndexOSMId l);
            poFeature1 = (if bField then SetField poFeature nIdx (VString (pszV tag))
                          else poFeature)
        in
        if bField \<and> m_nIndexAllTags l < 0 then (poFeature1, osAllTagsBuffer)
        else if (m_nIndexAllTags l \<ge> 0 \<or> m_nIndexOtherTags l \<ge> 0)
                \<and> AddInOtherOrAllTags l (pszK tag) then
          (if bTagsAsHSTORE then
             (poFeature1,
              OGROSMEscapeStringHSTORE (pszV tag)
                (OGROSMEscapeStringHSTORE (pszK tag)
                   (if osAllTagsBuffer \<noteq> [] then osAllTagsBuffer @ '','' else osAllTagsBuffer)
                 @ ''=>''))
           else
             (poFeature1,
              OGROSMEscapeStringJSON (pszV tag)
                (OGROSMEscapeStringJSON (pszK tag)
                   (if osAllTagsBuffer \<noteq> [] then osAllTagsBuffer @ '','' else ''{'')
                 @ '':'')))
        else (poFeature1, osAllTagsBuffer)))"

fun SetFieldsFromTags_tags ::
  "OGROSMLayer \<Rightarrow> bool \<Rightarrow> OSMTag list \<Rightarrow> OGRFeature \<times> string \<Rightarrow> OGRFeature \<times> string" where
  "SetFieldsFromTags_tags l bTagsAsHSTORE [] st = st"
| "SetFieldsFromTags_tags l bTagsAsHSTORE (tag # pasTags) st =
     SetFieldsFromTags_tags l bTagsAsHSTORE pasTags (SetFieldsFromTags_tag l bTagsAsHSTORE tag st)"

text \<open>The statement after the loop: the aggregate field is written from the buffer.\<close>

definition SetFieldsFromTags_aggregate ::
  "OGROSMLayer \<Rightarrow> bool \<Rightarrow> OGRFeature \<times> string \<Rightarrow> OGRFeature" where
  "SetFieldsFromTags_aggregate l bTagsAsHSTORE st =
     (case st of (poFeature, osAllTagsBuffer) \<Rightarrow>
        if osAllTagsBuffer \<noteq> [] then
          (let osBuffer = (if \<not> bTagsAsHSTORE then osAllTagsBuffer @ ''}'' else osAllTagsBuffer)
           in if m_nIndexAllTags l \<ge> 0
              then SetField poFeature (m_nIndexAllTags l) (VString osBuffer)
              else SetField poFeature (m_nIndexOtherTags l) (VString osBuffer))
        else poFeature)"

subsection \<open>Computed attributes: evaluation\<close>

text \<open>\<^verbatim>\<open>GetValueOfTag\<close>: the value of the first tag with that key, \<open>None\<close> for \<^verbatim>\<open>nullptr\<close>.\<close>

fun GetValueOfTag :: "string \<Rightarrow> OSMTag list \<Rightarrow> string option" where
  "GetValueOfTag pszKeyToSearch [] = None"
| "GetValueOfTag pszKeyToSearch (tag # pasTags) =
     (if pszK tag = pszKeyToSearch then Some (pszV tag)
      else GetValueOfTag pszKeyToSearch pasTags)"

text \<open>
  The C library's \<^verbatim>\<open>atoi\<close>, which returns an \<^verbatim>\<open>int\<close> of 32 bits. The text is read
  as by \<^verbatim>\<open>strtol(s, nullptr, 10)\<close>: white space is skipped, then an optional sign, then
  the decimal digits up to the first other character; no digits give 0.
  \<^verbatim>\<open>decimal_value\<close> is the integer that this part of the text denotes. \<^verbatim>\<open>strtol\<close>
  returns a \<^verbatim>\<open>long\<close> of 64 bits and gives \<^verbatim>\<open>LONG_MAX\<close> or \<^verbatim>\<open>LONG_MIN\<close> for a value
  beyond them; \<^verbatim>\<open>atoi\<close> is the conversion of that \<^verbatim>\<open>long\<close> to \<^verbatim>\<open>int\<close>, which keeps
  the low 32 bits. For a text whose value is an \<^verbatim>\<open>int\<close> this is its value, which is all
  that the C standard fixes; beyond it the result is the one of the GNU C library.
\<close>

definition isspace :: "char \<Rightarrow> bool" where
  "isspace c \<longleftrightarrow> c \<in> {CHR '' '', CHR 0x09, CHR 0x0A, CHR 0x0B, CHR 0x0C, CHR 0x0D}"

definition isdigit :: "char \<Rightarrow> bool" where
  "isdigit c \<longleftrightarrow> 48 \<le> (of_char c :: nat) \<and> (of_char c :: nat) \<le> 57"

fun digits_value :: "nat \<Rightarrow> string \<Rightarrow> nat" where
  "digits_value acc [] = acc"
| "digits_value acc (c # cs) =
     (if isdigit c then digits_value (10 * acc + (of_char c - 48)) cs else acc)"

definition decimal_value :: "string \<Rightarrow> int" where
  "decimal_value s =
     (case dropWhile isspace s of
        [] \<Rightarrow> 0
      | c # cs \<Rightarrow>
          if c = CHR ''-'' then - int (digits_value 0 cs)
          else if c = CHR ''+'' then int (digits_value 0 cs)
          else int (digits_value 0 (c # cs)))"

definition LONG_MAX :: int where
  "LONG_MAX = 9223372036854775807"

definition LONG_MIN :: int where
  "LONG_MIN = - 9223372036854775808"

definition strtol :: "string \<Rightarrow> int" where
  "strtol s = max LONG_MIN (min LONG_MAX (decimal_value s))"

definition atoi :: "string \<Rightarrow> 32 word" where
  "atoi s = word_of_int (strtol s)"

text \<open>
  The conversions of \<^verbatim>\<open>OGRFeature\<close> (\<^verbatim>\<open>GetFieldAsString\<close>, \<^verbatim>\<open>GetFieldAsInteger\<close>,
  \<^verbatim>\<open>GetFieldAsInteger64\<close>, \<^verbatim>\<open>GetFieldAsDouble\<close>) of a set field, as parameters.
\<close>

record OGRFieldGetters =
  AsString :: "field_value \<Rightarrow> string"
  AsInteger :: "field_value \<Rightarrow> int"
  AsInteger64 :: "field_value \<Rightarrow> int"
  AsDouble :: "field_value \<Rightarrow> double"

text \<open>
  One input of the hardcoded z-order: with a field index, the field as a string when
  it is set and not null and nothing otherwise; without one (a negative index), the
  value of the tag.
\<close>

definition ZOrderInput ::
  "OGRFieldGetters \<Rightarrow> OGRFeature \<Rightarrow> OSMTag list \<Rightarrow> int \<Rightarrow> string \<Rightarrow> string option" where
  "ZOrderInput get poFeature pasTags nIdx pszKey =
     (if nIdx \<ge> 0 then
        (if IsFieldSetAndNotNull poFeature nIdx then
           (case pauFields poFeature nIdx of
              Some v \<Rightarrow> Some (AsString get v) | None \<Rightarrow> None)
         else None)
      else GetValueOfTag pszKey pasTags)"

text \<open>
  The chain of comparisons on \<^verbatim>\<open>pszHighway\<close>: what is added to \<^verbatim>\<open>nZOrder\<close>, a C
  \<^verbatim>\<open>int\<close> of 32 bits.
\<close>

definition ZOrderHighway :: "string option \<Rightarrow> 32 word" where
  "ZOrderHighway pszHighway =
     (case pszHighway of
        None \<Rightarrow> 0
      | Some h \<Rightarrow>
          if h = ''minor'' \<or> h = ''road'' \<or> h = ''unclassified'' \<or> h = ''residential'' then 3
          else if h = ''tertiary_link'' \<or> h = ''tertiary'' then 4
          else if h = ''secondary_link'' \<or> h = ''secondary'' then 6
          else if h = ''primary_link'' \<or> h = ''primary'' then 7
          else if h = ''trunk_link'' \<or> h = ''trunk'' then 8
          else if h = ''motorway_link'' \<or> h = ''motorway'' then 9
          else 0)"

definition IsYesTrue1 :: "string option \<Rightarrow> bool" where
  "IsYesTrue1 psz \<longleftrightarrow>
     (case psz of None \<Rightarrow> False | Some s \<Rightarrow> s = ''yes'' \<or> s = ''true'' \<or> s = ''1'')"

text \<open>
  The hardcoded branch of the loop over the computed attributes: \<^verbatim>\<open>nZOrder\<close>. The
  five indices are \<^verbatim>\<open>anIndexToBind[0]\<close> to \<^verbatim>\<open>anIndexToBind[4]\<close>; the hardcoded
  expression has six placeholders, so an attribute with \<^verbatim>\<open>bHardcodedZOrder\<close> has them.
  \<^verbatim>\<open>nZOrder\<close> is a C \<^verbatim>\<open>int\<close> of 32 bits, and so is \<^verbatim>\<open>10 * atoi(pszLayer)\<close>: the
  product and the sum are taken in \<^typ>\<open>32 word\<close>, that is modulo \<open>2 ^ 32\<close>, which is what
  the compiled code does where the result leaves the range of \<^verbatim>\<open>int\<close> (a layer of nine
  digits or more). \<^verbatim>\<open>SetField(int, int)\<close> then stores the signed value.
\<close>

definition HardcodedZOrder ::
  "OGRFieldGetters \<Rightarrow> OGROSMComputedAttribute \<Rightarrow> OGRFeature \<Rightarrow> OSMTag list \<Rightarrow> 32 word" where
  "HardcodedZOrder get oAttr poFeature pasTags =
     (let nHighwayIdx = anIndexToBind oAttr ! 0;
          nBridgeIdx = anIndexToBind oAttr ! 1;
          nTunnelIdx = anIndexToBind oAttr ! 2;
          nRailwayIdx = anIndexToBind oAttr ! 3;
          nLayerIdx = anIndexToBind oAttr ! 4;
          nZOrder0 = 0;
          nZOrder1 = nZOrder0
            + ZOrderHighway (ZOrderInput get poFeature pasTags nHighwayIdx ''highway'');
          nZOrder2 =
            (if IsYesTrue1 (ZOrderInput get poFeature pasTags nBridgeIdx ''bridge'')
             then nZOrder1 + 10 else nZOrder1);
          nZOrder3 =
            (if IsYesTrue1 (ZOrderInput get poFeature pasTags nTunnelIdx ''tunnel'')
             then nZOrder2 - 10 else nZOrder2);
          nZOrder4 =
            (case ZOrderInput get poFeature pasTags nRailwayIdx ''railway'' of
               Some pszRailway \<Rightarrow> nZOrder3 + 5 | None \<Rightarrow> nZOrder3);
          nZOrder5 =
            (case ZOrderInput get poFeature pasTags nLayerIdx ''layer'' of
               Some pszLayer \<Rightarrow> nZOrder4 + 10 * atoi pszLayer | None \<Rightarrow> nZOrder4)
      in nZOrder5)"

text \<open>
  The value bound to parameter \<open>j + 1\<close> in the general branch: from the field when
  \<^verbatim>\<open>anIndexToBind[j]\<close> is an index (by the declared type of the field, null when it is
  not set), else from the first tag whose key is \<^verbatim>\<open>aosAttrToBind[j]\<close>. The index was
  returned by \<^verbatim>\<open>GetFieldIndex\<close> on the field definitions, which only grow, so it names
  one of them.
\<close>

definition BoundValue ::
  "OGRFieldGetters \<Rightarrow> OGROSMLayer \<Rightarrow> OGROSMComputedAttribute \<Rightarrow> OGRFeature \<Rightarrow> OSMTag list
     \<Rightarrow> nat \<Rightarrow> sql_value" where
  "BoundValue get l oAttr poFeature pasTags j =
     (let nIdx = anIndexToBind oAttr ! j in
      if nIdx \<ge> 0 then
        (if \<not> IsFieldSetAndNotNull poFeature nIdx then SQLITE_NULL
         else case pauFields poFeature nIdx of
           None \<Rightarrow> SQLITE_NULL
         | Some v \<Rightarrow>
             (let eType = snd (m_poFeatureDefn l ! nat nIdx) in
              if eType = OFTInteger then SQLITE_INTEGER (AsInteger get v)
              else if eType = OFTInteger64 then SQLITE_INTEGER (AsInteger64 get v)
              else if eType = OFTReal then SQLITE_FLOAT (AsDouble get v)
              else SQLITE_TEXT (AsString get v)))
      else
        (case GetValueOfTag (aosAttrToBind oAttr ! j) pasTags of
           Some v \<Rightarrow> SQLITE_TEXT v
         | None \<Rightarrow> SQLITE_NULL))"

fun BindParameters ::
  "OGRFieldGetters \<Rightarrow> OGROSMLayer \<Rightarrow> OGROSMComputedAttribute \<Rightarrow> OGRFeature \<Rightarrow> OSMTag list
     \<Rightarrow> nat list \<Rightarrow> sqlite3_stmt \<Rightarrow> sqlite3_stmt" where
  "BindParameters get l oAttr poFeature pasTags [] st = st"
| "BindParameters get l oAttr poFeature pasTags (j # js) st =
     BindParameters get l oAttr poFeature pasTags js
       (sqlite3_bind st (j + 1) (BoundValue get l oAttr poFeature pasTags j))"

text \<open>
  The \<^verbatim>\<open>if (sqlite3_step(...) == SQLITE_ROW && sqlite3_column_count(...) == 1)\<close> statement
  with its \<^verbatim>\<open>switch\<close> on the type of column 0.
\<close>

definition StoreResult :: "OGRFeature \<Rightarrow> int \<Rightarrow> step_result \<Rightarrow> OGRFeature" where
  "StoreResult poFeature nIdx res =
     (case res of
        SQLITE_ROW cols \<Rightarrow>
          (if length cols = 1 then
             (case cols ! 0 of
                SQLITE_INTEGER i \<Rightarrow> SetField poFeature nIdx (VInteger64 i)
              | SQLITE_FLOAT d \<Rightarrow> SetField poFeature nIdx (VReal d)
              | SQLITE_TEXT s \<Rightarrow> SetField poFeature nIdx (VString s)
              | _ \<Rightarrow> poFeature)
           else poFeature)
      | _ \<Rightarrow> poFeature)"

text \<open>
  The general branch for one attribute: bind, step, store, reset. The statement is
  owned by the attribute, so the attribute is returned with the statement as it is
  afterwards.
\<close>

definition EvaluateGeneral ::
  "sql_engine \<Rightarrow> OGRFieldGetters \<Rightarrow> OGROSMLayer \<Rightarrow> OSMTag list \<Rightarrow> OGROSMComputedAttribute
     \<Rightarrow> OGRFeature \<Rightarrow> OGRFeature \<times> OGROSMComputedAttribute" where
  "EvaluateGeneral engine get l pasTags oAttr poFeature =
     (let st1 = BindParameters get l oAttr poFeature pasTags
                  [0 ..< length (anIndexToBind oAttr)] (hStmt oAttr)
      in case sqlite3_step engine st1 of
           (res, st2) \<Rightarrow>
             (StoreResult poFeature (nIndex oAttr) res, oAttr\<lparr>hStmt := sqlite3_reset st2\<rparr>))"

text \<open>The body of the loop over \<^verbatim>\<open>m_oComputedAttributes\<close>.\<close>

definition EvaluateComputedAttribute ::
  "sql_engine \<Rightarrow> OGRFieldGetters \<Rightarrow> OGROSMLayer \<Rightarrow> OSMTag list \<Rightarrow> OGROSMComputedAttribute
     \<Rightarrow> OGRFeature \<Rightarrow> OGRFeature \<times> OGROSMComputedAttribute" where
  "EvaluateComputedAttribute engine get l pasTags oAttr poFeature =
     (if bHardcodedZOrder oAttr then
        (SetField poFeature (nIndex oAttr)
           (VInteger (sint (HardcodedZOrder get oAttr poFeature pasTags))), oAttr)
      else EvaluateGeneral engine get l pasTags oAttr poFeature)"

fun EvaluateComputedAttributes ::
  "sql_engine \<Rightarrow> OGRFieldGetters \<Rightarrow> OGROSMLayer \<Rightarrow> OSMTag list \<Rightarrow> OGROSMComputedAttribute list
     \<Rightarrow> OGRFeature \<Rightarrow> OGRFeature \<times> OGROSMComputedAttribute list" where
  "EvaluateComputedAttributes engine get l pasTags [] poFeature = (poFeature, [])"
| "EvaluateComputedAttributes engine get l pasTags (oAttr # rest) poFeature =
     (case EvaluateComputedAttribute engine get l pasTags oAttr poFeature of
        (poFeature1, oAttr1) \<Rightarrow>
          (case EvaluateComputedAttributes engine get l pasTags rest poFeature1 of
             (poFeature2, rest1) \<Rightarrow> (poFeature2, oAttr1 # rest1)))"

text \<open>
  \<^verbatim>\<open>SetFieldsFromTags\<close> from \<^verbatim>\<open>m_osAllTagsBuffer.clear()\<close> on: the loop over the tags, the
  aggregate field, the computed attributes. (The statements before it write the FID,
  the id field and the metadata fields.) The result is the feature and the layer, whose
  statements have been used.
\<close>

definition SetFieldsFromTags ::
  "sql_engine \<Rightarrow> OGRFieldGetters \<Rightarrow> bool \<Rightarrow> OGROSMLayer \<Rightarrow> OGRFeature \<Rightarrow> OSMTag list
     \<Rightarrow> OGRFeature \<times> OGROSMLayer" where
  "SetFieldsFromTags engine get bTagsAsHSTORE l poFeature pasTags =
     (let st = SetFieldsFromTags_tags l bTagsAsHSTORE pasTags (poFeature, []);
          poFeature1 = SetFieldsFromTags_aggregate l bTagsAsHSTORE st
      in case EvaluateComputedAttributes engine get l pasTags (m_oComputedAttributes l) poFeature1 of
           (poFeature2, attrs) \<Rightarrow> (poFeature2, l\<lparr>m_oComputedAttributes := attrs\<rparr>))"

subsection \<open>Computed attributes: declaration\<close>

text \<open>
  Modelled from the spec: \<^verbatim>\<open>OGRFeatureDefn::GetFieldIndex(name)\<close>, which is not in
  ogrosmlayer.cpp. By the spec a field name maps to one index and a name collides when
  a field with that name exists: the index of the first field with that name on the
  list of field definitions, \<open>-1\<close> when there is none.
\<close>

fun FeatureDefn_GetFieldIndex_from :: "int \<Rightarrow> (string \<times> OGRFieldType) list \<Rightarrow> string \<Rightarrow> int" where
  "FeatureDefn_GetFieldIndex_from i [] pszName = -1"
| "FeatureDefn_GetFieldIndex_from i (fd # fds) pszName =
     (if fst fd = pszName then i else FeatureDefn_GetFieldIndex_from (i + 1) fds pszName)"

definition FeatureDefn_GetFieldIndex :: "(string \<times> OGRFieldType) list \<Rightarrow> string \<Rightarrow> int" where
  "FeatureDefn_GetFieldIndex poDefn pszName = FeatureDefn_GetFieldIndex_from 0 poDefn pszName"

text \<open>
  \<^verbatim>\<open>std::string::find(ch, pos)\<close> for a one-character pattern: the first position from
  \<open>pos\<close> on that holds the character, \<open>None\<close> for \<^verbatim>\<open>npos\<close>.
\<close>

definition string_find :: "string \<Rightarrow> char \<Rightarrow> nat \<Rightarrow> nat option" where
  "string_find s ch pos =
     (if ch \<in> set (drop pos s)
      then Some (pos + length (takeWhile (\<lambda>c. c \<noteq> ch) (drop pos s)))
      else None)"

text \<open>
  The first \<^verbatim>\<open>while (true)\<close> loop of \<^verbatim>\<open>AddComputedAttribute\<close>, on \<^verbatim>\<open>osSQL\<close>,
  \<^verbatim>\<open>nStartSearch\<close>, \<^verbatim>\<open>aosAttrToBind\<close> and \<^verbatim>\<open>anIndexToBind\<close>: every \<^verbatim>\<open>[name]\<close> found
  after position 0 and not preceded by a backslash becomes \<^verbatim>\<open>?\<close>.
\<close>

function ExtractPlaceholders ::
  "(string \<times> OGRFieldType) list \<Rightarrow> string \<Rightarrow> nat \<Rightarrow> string list \<Rightarrow> int list
     \<Rightarrow> string \<times> string list \<times> int list" where
  "ExtractPlaceholders poDefn sSQL nStartSearch aos an =
     (case string_find sSQL (CHR ''['') nStartSearch of
        None \<Rightarrow> (sSQL, aos, an)
      | Some nPos \<Rightarrow>
          if nPos > 0 \<and> sSQL ! (nPos - 1) \<noteq> chBackslash then
            (case string_find (drop (nPos + 1) sSQL) (CHR '']'') 0 of
               None \<Rightarrow> (sSQL, aos, an)
             | Some nPos2 \<Rightarrow>
                 ExtractPlaceholders poDefn
                   (take nPos sSQL @ ''?'' @ drop (nPos + 1 + nPos2 + 1) sSQL)
                   (nPos + 1)
                   (aos @ [take nPos2 (drop (nPos + 1) sSQL)])
                   (an @ [FeatureDefn_GetFieldIndex poDefn (take nPos2 (drop (nPos + 1) sSQL))]))
          else ExtractPlaceholders poDefn sSQL (nPos + 1) aos an)"
  by pat_completeness auto
termination
proof -
  have tw: "length (takeWhile (\<lambda>c. c \<noteq> ch) xs) < length xs" if "ch \<in> set xs"
    for ch :: char and xs
    using that by (induction xs) auto
  have found: "pos \<le> n \<and> n < length s" if "string_find s ch pos = Some n"
    for s ch pos n
  proof -
    from that have m: "ch \<in> set (drop pos s)"
      and n: "n = pos + length (takeWhile (\<lambda>c. c \<noteq> ch) (drop pos s))"
      by (auto simp: string_find_def split: if_splits)
    from tw [OF m] n show ?thesis by auto
  qed
  show ?thesis
  proof (relation "measure (\<lambda>(poDefn, sSQL, nStartSearch, aos, an). length sSQL - nStartSearch)")
    show "wf (measure (\<lambda>(poDefn, sSQL, nStartSearch, aos, an). length sSQL - nStartSearch))"
      by simp
  next
    fix poDefn :: "(string \<times> OGRFieldType) list" and sSQL nStartSearch and aos :: "string list"
      and an :: "int list" and nPos nPos2
    assume f1: "string_find sSQL (CHR ''['') nStartSearch = Some nPos"
      and f2: "string_find (drop (nPos + 1) sSQL) (CHR '']'') 0 = Some nPos2"
    from found [OF f1] have b1: "nStartSearch \<le> nPos" "nPos < length sSQL" by auto
    from found [OF f2] have b2: "nPos + 1 + nPos2 < length sSQL" by auto
    from b1 b2 show
      "((poDefn, take nPos sSQL @ ''?'' @ drop (nPos + 1 + nPos2 + 1) sSQL, nPos + 1,
          aos @ [take nPos2 (drop (nPos + 1) sSQL)],
          an @ [FeatureDefn_GetFieldIndex poDefn (take nPos2 (drop (nPos + 1) sSQL))]),
         (poDefn, sSQL, nStartSearch, aos, an))
        \<in> measure (\<lambda>(poDefn, sSQL, nStartSearch, aos, an). length sSQL - nStartSearch)"
      by auto
  next
    fix poDefn :: "(string \<times> OGRFieldType) list" and sSQL nStartSearch and aos :: "string list"
      and an :: "int list" and nPos
    assume f1: "string_find sSQL (CHR ''['') nStartSearch = Some nPos"
    from found [OF f1]
    show "((poDefn, sSQL, nPos + 1, aos, an), (poDefn, sSQL, nStartSearch, aos, an))
        \<in> measure (\<lambda>(poDefn, sSQL, nStartSearch, aos, an). length sSQL - nStartSearch)"
      by auto
  qed
qed

declare ExtractPlaceholders.simps [simp del]

text \<open>
  The second loop: the first backslash is removed, again and again, until there is none
  or the first one is the last character.
\<close>

function RemoveBackslashes :: "string \<Rightarrow> string" where
  "RemoveBackslashes sSQL =
     (case string_find sSQL chBackslash 0 of
        None \<Rightarrow> sSQL
      | Some nPos \<Rightarrow>
          if nPos = length sSQL - 1 then sSQL
          else RemoveBackslashes (take nPos sSQL @ drop (nPos + 1) sSQL))"
  by pat_completeness auto
termination
proof -
  have tw: "length (takeWhile (\<lambda>c. c \<noteq> ch) xs) < length xs" if "ch \<in> set xs"
    for ch :: char and xs
    using that by (induction xs) auto
  have found: "n < length s" if "string_find s ch 0 = Some n" for s ch n
  proof -
    from that have m: "ch \<in> set s" and n: "n = length (takeWhile (\<lambda>c. c \<noteq> ch) s)"
      by (auto simp: string_find_def split: if_splits)
    from tw [OF m] n show ?thesis by simp
  qed
  show ?thesis
  proof (relation "measure length")
    show "wf (measure (length :: string \<Rightarrow> nat))" by simp
  next
    fix sSQL nPos
    assume "string_find sSQL chBackslash 0 = Some nPos"
    from found [OF this]
    show "(take nPos sSQL @ drop (nPos + 1) sSQL, sSQL) \<in> measure length"
      by auto
  qed
qed

declare RemoveBackslashes.simps [simp del]

text \<open>The expression that \<^verbatim>\<open>AddComputedAttribute\<close> compares \<^verbatim>\<open>pszSQL\<close> with.\<close>

definition ZOrderSQL :: string where
  "ZOrderSQL =
     ''SELECT (CASE [highway] WHEN 'minor' THEN 3 WHEN 'road' THEN 3 '' @
     ''WHEN 'unclassified' THEN 3 WHEN 'residential' THEN 3 WHEN '' @
     [CHR 0x27] @ ''tertiary_link' THEN 4 WHEN 'tertiary' THEN 4 WHEN '' @
     [CHR 0x27] @ ''secondary_link' '' @
     ''THEN 6 WHEN 'secondary' THEN 6 WHEN 'primary_link' THEN 7 WHEN '' @
     [CHR 0x27] @ ''primary' THEN 7 WHEN 'trunk_link' THEN 8 WHEN 'trunk' THEN 8 '' @
     ''WHEN 'motorway_link' THEN 9 WHEN 'motorway' THEN 9 ELSE 0 END) + '' @
     ''(CASE WHEN [bridge] IN ('yes', 'true', '1') THEN 10 ELSE 0 END) + '' @
     ''(CASE WHEN [tunnel] IN ('yes', 'true', '1') THEN -10 ELSE 0 END) '' @
     ''+ '' @
     ''(CASE WHEN [railway] IS NOT NULL THEN 5 ELSE 0 END) + '' @
     ''(CASE WHEN [layer] IS NOT NULL THEN 10 * CAST([layer] AS INTEGER) '' @
     ''ELSE 0 END)''"

text \<open>The same expression with its six placeholders replaced by \<^verbatim>\<open>?\<close>.\<close>

definition ZOrderSQL_prepared :: string where
  "ZOrderSQL_prepared =
     ''SELECT (CASE ? WHEN 'minor' THEN 3 WHEN 'road' THEN 3 WHEN 'unclassified' '' @
     ''THEN 3 WHEN 'residential' THEN 3 WHEN 'tertiary_link' THEN 4 '' @
     ''WHEN 'tertiary' THEN 4 WHEN 'secondary_link' THEN 6 WHEN 'secondary' '' @
     ''THEN 6 WHEN 'primary_link' THEN 7 WHEN 'primary' THEN 7 WHEN 'trunk_link' '' @
     ''THEN 8 WHEN 'trunk' THEN 8 WHEN 'motorway_link' THEN 9 WHEN 'motorway' '' @
     ''THEN 9 ELSE 0 END) + (CASE WHEN ? IN ('yes', 'true', '1') THEN '' @
     ''10 ELSE 0 END) + (CASE WHEN ? IN ('yes', 'true', '1') THEN -10 '' @
     ''ELSE 0 END) + (CASE WHEN ? IS NOT NULL THEN 5 ELSE 0 END) + '' @
     ''(CASE WHEN ? IS NOT NULL THEN 10 * CAST(? AS INTEGER) ELSE 0 '' @
     ''END)''"

definition SQLITE_OK :: int where
  "SQLITE_OK = 0"

text \<open>
  \<^verbatim>\<open>AddComputedAttribute(pszName, eType, pszSQL)\<close>. SQLite is a parameter: the outcome of
  \<^verbatim>\<open>sqlite3_open_v2\<close> (the return code and the handle it leaves in
  \<^verbatim>\<open>m_hDBForComputedAttributes\<close>) and \<^verbatim>\<open>sqlite3_prepare_v2\<close> (from the handle and the SQL
  text to the return code and the statement). The result is the errors raised, the
  handle of the data source, and the layer.
\<close>

definition AddComputedAttribute ::
  "int \<times> nat option \<Rightarrow> (nat option \<Rightarrow> string \<Rightarrow> int \<times> sqlite3_stmt) \<Rightarrow> nat option
     \<Rightarrow> OGROSMLayer \<Rightarrow> string \<Rightarrow> OGRFieldType \<Rightarrow> string
     \<Rightarrow> (CPLErr \<times> CPLErrorNum) list \<times> nat option \<times> OGROSMLayer" where
  "AddComputedAttribute sqlite3_open_v2 sqlite3_prepare_v2 hDB l pszName eTypeIn pszSQL =
     (let hDB1 = (if hDB = None then snd sqlite3_open_v2 else hDB) in
      if hDB = None \<and> fst sqlite3_open_v2 \<noteq> SQLITE_OK then
        ([(CE_Failure, CPLE_AppDefined)], hDB1, l)
      else if FeatureDefn_GetFieldIndex (m_poFeatureDefn l) pszName \<ge> 0 then
        ([(CE_Failure, CPLE_AppDefined)], hDB1, l)
      else
        (case ExtractPlaceholders (m_poFeatureDefn l) pszSQL 0 [] [] of
           (sSQL1, aos, an) \<Rightarrow>
             (case sqlite3_prepare_v2 hDB1 (RemoveBackslashes sSQL1) of
                (rc, stmt) \<Rightarrow>
                  if rc \<noteq> SQLITE_OK then ([(CE_Failure, CPLE_AppDefined)], hDB1, l)
                  else
                    ([], hDB1,
                     l\<lparr>m_poFeatureDefn := m_poFeatureDefn l @ [(pszName, eTypeIn)],
                       m_oComputedAttributes := m_oComputedAttributes l @
                         [\<lparr>osName = pszName,
                           nIndex = int (length (m_poFeatureDefn l @ [(pszName, eTypeIn)])) - 1,
                           eType = eTypeIn,
                           osSQL = pszSQL,
                           hStmt = stmt,
                           aosAttrToBind = aos,
                           anIndexToBind = an,
                           bHardcodedZOrder = (eTypeIn = OFTInteger \<and> pszSQL = ZOrderSQL)\<rparr>]\<rparr>))))"

section \<open>Notions used in the statements\<close>

subsection \<open>The feature array as a queue\<close>

text \<open>
  The features still to be delivered are the slots from the cursor on. The cursor is
  inside the array, or the array is empty and the cursor is 0: this is what
  \<^verbatim>\<open>AddToArray\<close> and the end of \<^verbatim>\<open>MyGetNextFeature\<close> maintain.
\<close>

definition PendingFeatures :: "OGROSMLayer \<Rightarrow> OGRFeature option list" where
  "PendingFeatures l = drop (m_nFeatureArrayIndex l) (m_apoFeatures l)"

definition CursorInArray :: "OGROSMLayer \<Rightarrow> bool" where
  "CursorInArray l \<longleftrightarrow>
     (m_apoFeatures l = [] \<and> m_nFeatureArrayIndex l = 0)
     \<or> m_nFeatureArrayIndex l < length (m_apoFeatures l)"

subsection \<open>The z-order formula in the words of the specification\<close>






section \<open>Example configurations\<close>

text \<open>Concrete layers, features and tags on which the statements are evaluated.\<close>

definition example_feature :: "int \<Rightarrow> OGRFeature" where
  "example_feature n = \<lparr>nFID = n, pauFields = (\<lambda>i. None)\<rparr>"

definition example_layer :: OGROSMLayer where
  "example_layer =
     \<lparr>m_apoFeatures = [],
      m_nFeatureArrayIndex = 0,
      m_bHasWarnedTooManyFeatures = False,
      m_bResetReadingAllowed = False,
      m_poFeatureDefn = [(''osm_id'', OFTString), (''highway'', OFTString), (''name'', OFTString),
                         (''other_tags'', OFTString)],
      m_oMapFieldNameToIndex =
        [''osm_id'' \<mapsto> 0, ''highway'' \<mapsto> 1, ''name'' \<mapsto> 2, ''other_tags'' \<mapsto> 3],
      m_nIndexOSMId = 0,
      m_nIndexOSMWayId = -1,
      m_nIndexOtherTags = 3,
      m_nIndexAllTags = -1,
      aoSetIgnoreKeys = {''created_by'', ''ns:''},
      m_oComputedAttributes = []\<rparr>"

definition example_layer_with :: "OGRFeature option list \<Rightarrow> OGROSMLayer" where
  "example_layer_with apoFeatures = example_layer\<lparr>m_apoFeatures := apoFeatures\<rparr>"

definition example_tag :: "string \<Rightarrow> string \<Rightarrow> OSMTag" where
  "example_tag k v = \<lparr>pszK = k, pszV = v\<rparr>"

definition example_getters :: OGRFieldGetters where
  "example_getters =
     \<lparr>AsString = (\<lambda>v. case v of VString s \<Rightarrow> s | _ \<Rightarrow> []),
      AsInteger = (\<lambda>v. case v of VInteger i \<Rightarrow> i | VInteger64 i \<Rightarrow> i | _ \<Rightarrow> 0),
      AsInteger64 = (\<lambda>v. case v of VInteger i \<Rightarrow> i | VInteger64 i \<Rightarrow> i | _ \<Rightarrow> 0),
      AsDouble = (\<lambda>v. case v of VReal d \<Rightarrow> d | _ \<Rightarrow> 0)\<rparr>"

definition example_stmt :: "string \<Rightarrow> sqlite3_stmt" where
  "example_stmt sSQL = \<lparr>stmt_sql = sSQL, stmt_bound = (\<lambda>i. SQLITE_NULL), stmt_stepped = False\<rparr>"

text \<open>An attribute with the hardcoded z-order whose five inputs have the given indices.\<close>

definition example_zorder_attribute :: "int list \<Rightarrow> OGROSMComputedAttribute" where
  "example_zorder_attribute an =
     \<lparr>osName = ''z_order'', nIndex = 4, eType = OFTInteger, osSQL = ZOrderSQL,
      hStmt = example_stmt ZOrderSQL_prepared,
      aosAttrToBind = [''highway'', ''bridge'', ''tunnel'', ''railway'', ''layer'', ''layer''],
      anIndexToBind = an, bHardcodedZOrder = True\<rparr>"

text \<open>A chunk parser at the end of its input: it adds nothing and returns \<^verbatim>\<open>FALSE\<close>.\<close>

definition NoMoreChunks :: "unit chunk_parser" where
  "NoMoreChunks nIdxLayer poDS = (False, poDS)"

text \<open>
  An interleaved data source with two layers: layer 0 is current and holds the given
  features, layer 1 holds 10001 features.
\<close>

definition example_datasource :: "OGRFeature option list \<Rightarrow> unit OGROSMDataSource" where
  "example_datasource apoFeatures0 =
     \<lparr>m_apoLayers = [example_layer_with apoFeatures0,
                     example_layer_with (replicate 10001 (Some (example_feature 2)))],
      m_poCurrentLayer = Some 0,
      m_bInterleavedReading = True,
      m_bTagsAsHSTORE = True,
      m_stream = ()\<rparr>"

text \<open>
  An engine for the expression \<^verbatim>\<open>SELECT ? + ?\<close>: with two texts bound it returns one row
  with the sum of the integers they hold, and no row otherwise.
\<close>

definition example_engine :: sql_engine where
  "example_engine sSQL bound =
     (case (bound 1, bound 2) of
        (SQLITE_TEXT a, SQLITE_TEXT b) \<Rightarrow> SQLITE_ROW [SQLITE_INTEGER (decimal_value a + decimal_value b)]
      | _ \<Rightarrow> SQLITE_DONE)"

definition example_sum_attribute :: OGROSMComputedAttribute where
  "example_sum_attribute =
     \<lparr>osName = ''a_plus_b'', nIndex = 4, eType = OFTInteger64, osSQL = ''SELECT [a] + [b]'',
      hStmt = example_stmt ''SELECT ? + ?'',
      aosAttrToBind = [''a'', ''b''],
      anIndexToBind = [-1, -1], bHardcodedZOrder = False\<rparr>"

text \<open>An SQLite that opens its database and compiles every expression.\<close>

definition example_open :: "int \<times> nat option" where
  "example_open = (SQLITE_OK, Some 1)"

definition example_prepare :: "nat option \<Rightarrow> string \<Rightarrow> int \<times> sqlite3_stmt" where
  "example_prepare hDB sSQL = (SQLITE_OK, example_stmt sSQL)"

text \<open>An SQLite that compiles nothing.\<close>

definition example_prepare_error :: "nat option \<Rightarrow> string \<Rightarrow> int \<times> sqlite3_stmt" where
  "example_prepare_error hDB sSQL = (1, example_stmt sSQL)"

text \<open>
  A layer on which \<^verbatim>\<open>highway\<close> is not a field added by \<^verbatim>\<open>AddField\<close> but a computed
  attribute, declared with the expression \<^verbatim>\<open>SELECT NULL\<close>, followed by the hardcoded
  z-order: \<^verbatim>\<open>AddComputedAttribute\<close> finds \<^verbatim>\<open>highway\<close> among the field definitions, at
  index 3, and binds the first input of the z-order to it, while
  \<^verbatim>\<open>m_oMapFieldNameToIndex\<close>, which only \<^verbatim>\<open>AddField\<close> fills, does not have the name.
\<close>

definition example_null_attribute :: OGROSMComputedAttribute where
  "example_null_attribute =
     \<lparr>osName = ''highway'', nIndex = 3, eType = OFTString, osSQL = ''SELECT NULL'',
      hStmt = example_stmt ''SELECT NULL'',
      aosAttrToBind = [], anIndexToBind = [], bHardcodedZOrder = False\<rparr>"

definition example_layer_computed_highway :: OGROSMLayer where
  "example_layer_computed_highway =
     \<lparr>m_apoFeatures = [],
      m_nFeatureArrayIndex = 0,
      m_bHasWarnedTooManyFeatures = False,
      m_bResetReadingAllowed = False,
      m_poFeatureDefn = [(''osm_id'', OFTString), (''name'', OFTString), (''other_tags'', OFTString),
                         (''highway'', OFTString), (''z_order'', OFTInteger)],
      m_oMapFieldNameToIndex = [''osm_id'' \<mapsto> 0, ''name'' \<mapsto> 1, ''other_tags'' \<mapsto> 2],
      m_nIndexOSMId = 0,
      m_nIndexOSMWayId = -1,
      m_nIndexOtherTags = 2,
      m_nIndexAllTags = -1,
      aoSetIgnoreKeys = {''created_by''},
      m_oComputedAttributes =
        [example_null_attribute, example_zorder_attribute [3, -1, -1, -1, -1, -1]]\<rparr>"

text \<open>An engine for the expression \<^verbatim>\<open>SELECT NULL\<close>: one row with one null column.\<close>

definition example_engine_null :: sql_engine where
  "example_engine_null sSQL bound = SQLITE_ROW [SQLITE_NULL]"

text \<open>The layer of the last example before its two computed attributes are declared.\<close>

definition example_layer_undeclared :: OGROSMLayer where
  "example_layer_undeclared =
     \<lparr>m_apoFeatures = [],
      m_nFeatureArrayIndex = 0,
      m_bHasWarnedTooManyFeatures = False,
      m_bResetReadingAllowed = False,
      m_poFeatureDefn = [(''osm_id'', OFTString), (''name'', OFTString), (''other_tags'', OFTString)],
      m_oMapFieldNameToIndex = [''osm_id'' \<mapsto> 0, ''name'' \<mapsto> 1, ''other_tags'' \<mapsto> 2],
      m_nIndexOSMId = 0,
      m_nIndexOSMWayId = -1,
      m_nIndexOtherTags = 2,
      m_nIndexAllTags = -1,
      aoSetIgnoreKeys = {''created_by''},
      m_oComputedAttributes = []\<rparr>"

text \<open>
  The layer of the last example before \<^verbatim>\<open>AddField\<close> is called for its three fields: no
  field, no index.
\<close>

definition example_layer_no_field :: OGROSMLayer where
  "example_layer_no_field =
     \<lparr>m_apoFeatures = [],
      m_nFeatureArrayIndex = 0,
      m_bHasWarnedTooManyFeatures = False,
      m_bResetReadingAllowed = False,
      m_poFeatureDefn = [],
      m_oMapFieldNameToIndex = Map.empty,
      m_nIndexOSMId = -1,
      m_nIndexOSMWayId = -1,
      m_nIndexOtherTags = -1,
      m_nIndexAllTags = -1,
      aoSetIgnoreKeys = {''created_by''},
      m_oComputedAttributes = []\<rparr>"
section \<open>The feature array and its thresholds\<close>

lemma AddToArray_checked_length:
  "length (m_apoFeatures l) \<le> MAX_THRESHOLD + 1 \<Longrightarrow>
   length (m_apoFeatures (snd (snd (AddToArray l f True ok)))) \<le> MAX_THRESHOLD + 1"
  by (auto simp: AddToArray_def)

lemma AddToArray_seq_checked_length:
  "length (m_apoFeatures l) \<le> MAX_THRESHOLD + 1 \<Longrightarrow>
   length (m_apoFeatures (AddToArray_seq True l ops)) \<le> MAX_THRESHOLD + 1"
proof (induction ops arbitrary: l)
  case Nil
  then show ?case by simp
next
  case (Cons op ops)
  obtain f ok where op: "op = (f, ok)" by (cases op)
  from Cons.prems
  have "length (m_apoFeatures (snd (snd (AddToArray l f True ok)))) \<le> MAX_THRESHOLD + 1"
    by (rule AddToArray_checked_length)
  from Cons.IH [OF this] show ?case unfolding op by simp
qed

lemma AddToArray_rejects_above_threshold:
  "MAX_THRESHOLD < length (m_apoFeatures l) \<Longrightarrow>
   fst (AddToArray l f True ok) = False
   \<and> m_apoFeatures (snd (snd (AddToArray l f True ok))) = m_apoFeatures l"
  by (simp add: AddToArray_def)

text \<open>
  As long as the array stays within \<open>MAX_THRESHOLD + 1\<close>, every checked call whose
  allocation succeeds adds its feature.
\<close>

lemma AddToArray_seq_replicate_length:
  "length (m_apoFeatures l) + n \<le> MAX_THRESHOLD + 1 \<Longrightarrow>
   length (m_apoFeatures (AddToArray_seq True l (replicate n (f, True))))
     = length (m_apoFeatures l) + n"
proof (induction n arbitrary: l)
  case 0
  then show ?case by simp
next
  case (Suc n)
  from Suc.prems have small: "\<not> MAX_THRESHOLD < length (m_apoFeatures l)" by simp
  have step: "snd (snd (AddToArray l f True True)) = l\<lparr>m_apoFeatures := m_apoFeatures l @ [Some f]\<rparr>"
    using small by (simp add: AddToArray_def)
  from Suc.prems
  have "length (m_apoFeatures (l\<lparr>m_apoFeatures := m_apoFeatures l @ [Some f]\<rparr>)) + n
          \<le> MAX_THRESHOLD + 1"
    by simp
  from Suc.IH [OF this] show ?case by (simp add: step)
qed

text \<open>
  Claim C1, as amended. For every sequence of calls of \<^verbatim>\<open>AddToArray\<close> with the threshold
  check enabled, on an array of at most \<open>MAX_THRESHOLD + 1\<close> features (an empty one in
  particular), the size of the array never exceeds \<open>MAX_THRESHOLD + 1\<close> (100001); and
  once the size exceeds \<open>MAX_THRESHOLD\<close>, a call returns failure and leaves the array as
  it is. The test of the code is \<^verbatim>\<open>size() > MAX_THRESHOLD\<close>, so the call made at size
  \<open>MAX_THRESHOLD\<close> still adds its feature.
\<close>

theorem AddToArray_bound:
  assumes "length (m_apoFeatures l) \<le> MAX_THRESHOLD + 1"
  shows "length (m_apoFeatures (AddToArray_seq True l ops)) \<le> MAX_THRESHOLD + 1
    \<and> (MAX_THRESHOLD < length (m_apoFeatures (AddToArray_seq True l ops)) \<longrightarrow>
          fst (AddToArray (AddToArray_seq True l ops) f True ok) = False
          \<and> m_apoFeatures (snd (snd (AddToArray (AddToArray_seq True l ops) f True ok)))
              = m_apoFeatures (AddToArray_seq True l ops))"
  using assms AddToArray_seq_checked_length AddToArray_rejects_above_threshold by blast

text \<open>
  The theorem on the empty example layer after 100001 successful calls: the array is
  above \<open>MAX_THRESHOLD\<close>, within \<open>MAX_THRESHOLD + 1\<close>, and the next call is refused.
\<close>

theorem AddToArray_bound_witness:
  "length (m_apoFeatures example_layer) \<le> MAX_THRESHOLD + 1
   \<and> MAX_THRESHOLD < length (m_apoFeatures
        (AddToArray_seq True example_layer (replicate 100001 (example_feature 1, True))))
   \<and> length (m_apoFeatures
        (AddToArray_seq True example_layer (replicate 100001 (example_feature 1, True))))
        \<le> MAX_THRESHOLD + 1
   \<and> fst (AddToArray
        (AddToArray_seq True example_layer (replicate 100001 (example_feature 1, True)))
        (example_feature 2) True True) = False
   \<and> m_apoFeatures (snd (snd (AddToArray
        (AddToArray_seq True example_layer (replicate 100001 (example_feature 1, True)))
        (example_feature 2) True True)))
      = m_apoFeatures
        (AddToArray_seq True example_layer (replicate 100001 (example_feature 1, True)))"
proof -
  have h: "length (m_apoFeatures example_layer) \<le> MAX_THRESHOLD + 1"
    by (simp add: example_layer_def)
  have n: "length (m_apoFeatures
        (AddToArray_seq True example_layer (replicate 100001 (example_feature 1, True)))) = 100001"
    using AddToArray_seq_replicate_length [of example_layer 100001 "example_feature 1"]
    by (simp add: example_layer_def MAX_THRESHOLD_def)
  then have big: "MAX_THRESHOLD < length (m_apoFeatures
        (AddToArray_seq True example_layer (replicate 100001 (example_feature 1, True))))"
    by (simp add: MAX_THRESHOLD_def)
  from AddToArray_bound [OF h, of "replicate 100001 (example_feature 1, True)"
      "example_feature 2" True] h big
  show ?thesis by blast
qed

text \<open>
  The claim as it was stated fails: 100001 checked calls on the empty example layer,
  each with its memory, leave 100001 features in the array, more than \<open>MAX_THRESHOLD\<close>.
\<close>

theorem AddToArray_exceeds_counterexample:
  "length (m_apoFeatures
     (AddToArray_seq True example_layer (replicate 100001 (example_feature 1, True)))) = 100001
   \<and> \<not> (length (m_apoFeatures
     (AddToArray_seq True example_layer (replicate 100001 (example_feature 1, True))))
        \<le> MAX_THRESHOLD)"
  using AddToArray_seq_replicate_length [of example_layer 100001 "example_feature 1"]
  by (simp add: example_layer_def MAX_THRESHOLD_def)

section \<open>The feature array as a first-in first-out queue\<close>

lemma AddToArray_pending:
  assumes "CursorInArray l"
  shows "CursorInArray (snd (snd (AddToArray l f b ok)))"
    and "PendingFeatures (snd (snd (AddToArray l f b ok)))
           = (if fst (AddToArray l f b ok) then PendingFeatures l @ [Some f] else PendingFeatures l)"
  using assms
  by (auto simp: AddToArray_def CursorInArray_def PendingFeatures_def)

lemma TakeFeature_pending:
  assumes "CursorInArray l" and "PendingFeatures l \<noteq> []"
  shows "fst (TakeFeature l) = hd (PendingFeatures l)"
    and "PendingFeatures (snd (TakeFeature l)) = tl (PendingFeatures l)"
    and "CursorInArray (snd (TakeFeature l))"
proof -
  let ?i = "m_nFeatureArrayIndex l"
  from assms(2) have i: "?i < length (m_apoFeatures l)"
    by (simp add: PendingFeatures_def)
  show "fst (TakeFeature l) = hd (PendingFeatures l)"
    using i by (simp add: TakeFeature_def Let_def PendingFeatures_def hd_drop_conv_nth)
  show "PendingFeatures (snd (TakeFeature l)) = tl (PendingFeatures l)"
  proof -
    have "tl (drop ?i (m_apoFeatures l)) = drop (Suc ?i) (m_apoFeatures l)"
      by (simp add: drop_Suc tl_drop)
    moreover have "drop (Suc ?i) ((m_apoFeatures l)[?i := None]) = drop (Suc ?i) (m_apoFeatures l)"
      by (simp add: drop_update_cancel)
    ultimately show ?thesis
      using i by (simp add: TakeFeature_def Let_def PendingFeatures_def)
  qed
  show "CursorInArray (snd (TakeFeature l))"
    using i by (auto simp: TakeFeature_def Let_def CursorInArray_def)
qed

lemma drained_is_reset:
  "CursorInArray l \<Longrightarrow> PendingFeatures l = [] \<Longrightarrow>
   m_apoFeatures l = [] \<and> m_nFeatureArrayIndex l = 0"
  by (auto simp: CursorInArray_def PendingFeatures_def)

lemma same_buffer_same_behaviour:
  assumes "m_apoFeatures l = m_apoFeatures l0" "m_nFeatureArrayIndex l = m_nFeatureArrayIndex l0"
  shows "fst (AddToArray l g b ok) = fst (AddToArray l0 g b ok)"
    and "fst (TakeFeature (snd (snd (AddToArray l g b ok))))
           = fst (TakeFeature (snd (snd (AddToArray l0 g b ok))))"
    and "m_apoFeatures (snd (TakeFeature (snd (snd (AddToArray l g b ok)))))
           = m_apoFeatures (snd (TakeFeature (snd (snd (AddToArray l0 g b ok)))))"
    and "m_nFeatureArrayIndex (snd (TakeFeature (snd (snd (AddToArray l g b ok)))))
           = m_nFeatureArrayIndex (snd (TakeFeature (snd (snd (AddToArray l0 g b ok)))))"
  using assms by (auto simp: AddToArray_def TakeFeature_def Let_def)

lemma TakeFeature_n_pending:
  "CursorInArray l \<Longrightarrow> n \<le> length (PendingFeatures l) \<Longrightarrow>
   fst (TakeFeature_n n l) = take n (PendingFeatures l)
   \<and> PendingFeatures (snd (TakeFeature_n n l)) = drop n (PendingFeatures l)
   \<and> CursorInArray (snd (TakeFeature_n n l))"
proof (induction n arbitrary: l)
  case 0
  then show ?case by simp
next
  case (Suc n)
  from Suc.prems have ne: "PendingFeatures l \<noteq> []" by auto
  note t = TakeFeature_pending [OF Suc.prems(1) ne]
  from Suc.prems ne have "n \<le> length (PendingFeatures (snd (TakeFeature l)))"
    by (simp add: t(2))
  from Suc.IH [OF t(3) this] ne t(1,2) show ?case
    by (cases "PendingFeatures l") (auto split: prod.splits)
qed

text \<open>
  With a non-empty array \<^verbatim>\<open>MyGetNextFeature\<close> parses nothing and goes straight to its
  end: it returns the front of the queue, whatever the mode and the current layer.
\<close>

lemma MyGetNextFeature_front:
  assumes "this < length (m_apoLayers poDS)"
    and "CursorInArray (m_apoLayers poDS ! this)"
    and "PendingFeatures (m_apoLayers poDS ! this) \<noteq> []"
  shows "map_option fst (MyGetNextFeature ParseNextChunk poDS this)
           = Some (hd (PendingFeatures (m_apoLayers poDS ! this)))"
proof -
  let ?l = "m_apoLayers poDS ! this"
  let ?l1 = "?l\<lparr>m_bResetReadingAllowed := True\<rparr>"
  let ?ds = "update_layer poDS this ?l1"
  have l1: "this_layer ?ds this = ?l1"
    using assms(1) by (simp add: this_layer_def update_layer_def)
  have c1: "CursorInArray ?l1" using assms(2) by (simp add: CursorInArray_def)
  have p1: "PendingFeatures ?l1 = PendingFeatures ?l" by (simp add: PendingFeatures_def)
  from assms(3) have ne: "m_apoFeatures ?l1 \<noteq> []"
    by (auto simp: PendingFeatures_def)
  from ne l1 have "MyGetNextFeature ParseNextChunk poDS this
      = Some (TakeFeatureOf ?ds this (m_poCurrentLayer poDS))"
    by (simp add: MyGetNextFeature_def Let_def this_layer_def)
  then have "map_option fst (MyGetNextFeature ParseNextChunk poDS this) = Some (fst (TakeFeature ?l1))"
    by (simp add: TakeFeatureOf_def l1 split: prod.splits)
  also from assms(3) have "fst (TakeFeature ?l1) = hd (PendingFeatures ?l1)"
    by (intro TakeFeature_pending(1) [OF c1]) (simp add: p1)
  finally show ?thesis by (simp add: p1)
qed

text \<open>
  Claim C7. The end of \<^verbatim>\<open>MyGetNextFeature\<close> takes the features out in the order in
  which \<^verbatim>\<open>AddToArray\<close> put them in. With the features still to be delivered read as
  a queue (the slots from the cursor on): a successful \<^verbatim>\<open>AddToArray\<close> puts its feature
  at the back of the queue and a failed one leaves the queue as it is; taking a feature
  returns the front of the queue and removes it; \<open>n\<close> takes in a row return the first
  \<open>n\<close> of the queue in order; and \<^verbatim>\<open>MyGetNextFeature\<close> on a layer with a non-empty
  queue returns its front. When the last feature is taken, the array is cleared and
  the cursor is back at 0, and from there an \<^verbatim>\<open>AddToArray\<close> followed by a take returns
  the same flag, the same feature, the same array and the same cursor as on any layer
  with an empty array and cursor 0, a new one in particular.
\<close>

theorem TakeFeature_fifo:
  assumes "CursorInArray l"
  shows "CursorInArray (snd (snd (AddToArray l f b ok)))
    \<and> PendingFeatures (snd (snd (AddToArray l f b ok)))
         = (if fst (AddToArray l f b ok) then PendingFeatures l @ [Some f] else PendingFeatures l)
    \<and> (PendingFeatures l \<noteq> [] \<longrightarrow>
          fst (TakeFeature l) = hd (PendingFeatures l)
          \<and> PendingFeatures (snd (TakeFeature l)) = tl (PendingFeatures l)
          \<and> CursorInArray (snd (TakeFeature l)))
    \<and> (n \<le> length (PendingFeatures l) \<longrightarrow>
          fst (TakeFeature_n n l) = take n (PendingFeatures l))
    \<and> (this < length (m_apoLayers poDS) \<and> m_apoLayers poDS ! this = l
          \<and> PendingFeatures l \<noteq> [] \<longrightarrow>
          map_option fst (MyGetNextFeature ParseNextChunk poDS this) = Some (hd (PendingFeatures l)))
    \<and> (PendingFeatures l \<noteq> [] \<and> tl (PendingFeatures l) = [] \<longrightarrow>
          m_apoFeatures (snd (TakeFeature l)) = []
          \<and> m_nFeatureArrayIndex (snd (TakeFeature l)) = 0
          \<and> (m_apoFeatures l0 = [] \<and> m_nFeatureArrayIndex l0 = 0 \<longrightarrow>
               fst (AddToArray (snd (TakeFeature l)) g b ok) = fst (AddToArray l0 g b ok)
               \<and> fst (TakeFeature (snd (snd (AddToArray (snd (TakeFeature l)) g b ok))))
                   = fst (TakeFeature (snd (snd (AddToArray l0 g b ok))))
               \<and> m_apoFeatures (snd (TakeFeature (snd (snd (AddToArray (snd (TakeFeature l)) g b ok)))))
                   = m_apoFeatures (snd (TakeFeature (snd (snd (AddToArray l0 g b ok)))))
               \<and> m_nFeatureArrayIndex (snd (TakeFeature (snd (snd (AddToArray (snd (TakeFeature l)) g b ok)))))
                   = m_nFeatureArrayIndex (snd (TakeFeature (snd (snd (AddToArray l0 g b ok)))))))"
proof (intro conjI impI)
  show "CursorInArray (snd (snd (AddToArray l f b ok)))"
    using assms by (rule AddToArray_pending)
  show "PendingFeatures (snd (snd (AddToArray l f b ok)))
         = (if fst (AddToArray l f b ok) then PendingFeatures l @ [Some f] else PendingFeatures l)"
    using assms by (rule AddToArray_pending)
next
  assume ne: "PendingFeatures l \<noteq> []"
  show "fst (TakeFeature l) = hd (PendingFeatures l)"
    using assms ne by (rule TakeFeature_pending)
  show "PendingFeatures (snd (TakeFeature l)) = tl (PendingFeatures l)"
    using assms ne by (rule TakeFeature_pending)
  show "CursorInArray (snd (TakeFeature l))"
    using assms ne by (rule TakeFeature_pending)
next
  assume "n \<le> length (PendingFeatures l)"
  with assms show "fst (TakeFeature_n n l) = take n (PendingFeatures l)"
    by (simp add: TakeFeature_n_pending)
next
  assume "this < length (m_apoLayers poDS) \<and> m_apoLayers poDS ! this = l
          \<and> PendingFeatures l \<noteq> []"
  with assms
  show "map_option fst (MyGetNextFeature ParseNextChunk poDS this) = Some (hd (PendingFeatures l))"
    using MyGetNextFeature_front [of this poDS ParseNextChunk] by auto
next
  assume last: "PendingFeatures l \<noteq> [] \<and> tl (PendingFeatures l) = []"
  then have ne: "PendingFeatures l \<noteq> []" by simp
  from last TakeFeature_pending(2,3) [OF assms ne]
  have "CursorInArray (snd (TakeFeature l))" "PendingFeatures (snd (TakeFeature l)) = []"
    by simp_all
  then have reset: "m_apoFeatures (snd (TakeFeature l)) = [] \<and> m_nFeatureArrayIndex (snd (TakeFeature l)) = 0"
    by (rule drained_is_reset)
  from reset show "m_apoFeatures (snd (TakeFeature l)) = []" by simp
  from reset show "m_nFeatureArrayIndex (snd (TakeFeature l)) = 0" by simp
  assume fresh: "m_apoFeatures l0 = [] \<and> m_nFeatureArrayIndex l0 = 0"
  from reset fresh have eq: "m_apoFeatures (snd (TakeFeature l)) = m_apoFeatures l0"
    "m_nFeatureArrayIndex (snd (TakeFeature l)) = m_nFeatureArrayIndex l0" by simp_all
  show "fst (AddToArray (snd (TakeFeature l)) g b ok) = fst (AddToArray l0 g b ok)"
    using eq by (rule same_buffer_same_behaviour)
  show "fst (TakeFeature (snd (snd (AddToArray (snd (TakeFeature l)) g b ok))))
          = fst (TakeFeature (snd (snd (AddToArray l0 g b ok))))"
    using eq by (rule same_buffer_same_behaviour)
  show "m_apoFeatures (snd (TakeFeature (snd (snd (AddToArray (snd (TakeFeature l)) g b ok)))))
          = m_apoFeatures (snd (TakeFeature (snd (snd (AddToArray l0 g b ok)))))"
    using eq by (rule same_buffer_same_behaviour)
  show "m_nFeatureArrayIndex (snd (TakeFeature (snd (snd (AddToArray (snd (TakeFeature l)) g b ok)))))
          = m_nFeatureArrayIndex (snd (TakeFeature (snd (snd (AddToArray l0 g b ok)))))"
    using eq by (rule same_buffer_same_behaviour)
qed

text \<open>
  The theorem on the example layer holding features 1 and 2: they come out in that order,
  \<^verbatim>\<open>MyGetNextFeature\<close> on the example data source with this layer returns feature 1,
  the second take resets the array, and feature 3 then goes through as on the empty
  example layer.
\<close>

theorem TakeFeature_fifo_witness:
  "CursorInArray (example_layer_with [Some (example_feature 1), Some (example_feature 2)])
   \<and> CursorInArray (snd (TakeFeature (example_layer_with [Some (example_feature 1), Some (example_feature 2)])))
   \<and> fst (TakeFeature_n 2 (example_layer_with [Some (example_feature 1), Some (example_feature 2)]))
        = [Some (example_feature 1), Some (example_feature 2)]
   \<and> map_option fst (MyGetNextFeature NoMoreChunks
        (example_datasource [Some (example_feature 1), Some (example_feature 2)]) 0)
        = Some (Some (example_feature 1))
   \<and> fst (TakeFeature (snd (TakeFeature
        (example_layer_with [Some (example_feature 1), Some (example_feature 2)]))))
        = Some (example_feature 2)
   \<and> m_apoFeatures (snd (TakeFeature (snd (TakeFeature
        (example_layer_with [Some (example_feature 1), Some (example_feature 2)]))))) = []
   \<and> m_nFeatureArrayIndex (snd (TakeFeature (snd (TakeFeature
        (example_layer_with [Some (example_feature 1), Some (example_feature 2)]))))) = 0
   \<and> fst (TakeFeature (snd (snd (AddToArray (snd (TakeFeature (snd (TakeFeature
        (example_layer_with [Some (example_feature 1), Some (example_feature 2)])))))
        (example_feature 3) True True))))
      = fst (TakeFeature (snd (snd (AddToArray example_layer (example_feature 3) True True))))"
proof -
  let ?l = "example_layer_with [Some (example_feature 1), Some (example_feature 2)]"
  let ?ds = "example_datasource [Some (example_feature 1), Some (example_feature 2)]"
  let ?l1 = "snd (TakeFeature ?l)"
  have h: "CursorInArray ?l"
    by (simp add: CursorInArray_def example_layer_with_def example_layer_def)
  have p: "PendingFeatures ?l = [Some (example_feature 1), Some (example_feature 2)]"
    by (simp add: PendingFeatures_def example_layer_with_def example_layer_def)
  have d: "0 < length (m_apoLayers ?ds)" "m_apoLayers ?ds ! 0 = ?l"
    by (simp_all add: example_datasource_def)
  from TakeFeature_fifo [OF h, of "example_feature 3" True True 2 0 ?ds NoMoreChunks
      example_layer "example_feature 3"] p d
  have a: "fst (TakeFeature_n 2 ?l) = [Some (example_feature 1), Some (example_feature 2)]"
    and m: "map_option fst (MyGetNextFeature NoMoreChunks ?ds 0) = Some (Some (example_feature 1))"
    and h1: "CursorInArray ?l1" and p1: "PendingFeatures ?l1 = [Some (example_feature 2)]"
    by simp_all
  have fresh: "m_apoFeatures example_layer = [] \<and> m_nFeatureArrayIndex example_layer = 0"
    by (simp add: example_layer_def)
  from TakeFeature_fifo [OF h1, of "example_feature 3" True True 1 0 ?ds NoMoreChunks
      example_layer "example_feature 3"] p1 fresh
  have "fst (TakeFeature ?l1) = Some (example_feature 2)"
    and "m_apoFeatures (snd (TakeFeature ?l1)) = []"
    and "m_nFeatureArrayIndex (snd (TakeFeature ?l1)) = 0"
    and "fst (TakeFeature (snd (snd (AddToArray (snd (TakeFeature ?l1)) (example_feature 3) True True))))
      = fst (TakeFeature (snd (snd (AddToArray example_layer (example_feature 3) True True))))"
    by simp_all
  with h h1 a m show ?thesis by simp
qed

section \<open>Interleaved reading: switching to a layer that holds too many features\<close>

lemma FindOtherLayer_first:
  "j < length ls \<Longrightarrow> k + j \<noteq> this \<Longrightarrow> test (ls ! j) \<Longrightarrow>
   \<exists>i. FindOtherLayer test this k ls = Some i \<and> k \<le> i \<and> i \<le> k + j
       \<and> i \<noteq> this \<and> test (ls ! (i - k))"
proof (induction ls arbitrary: j k)
  case Nil
  then show ?case by simp
next
  case (Cons l ls)
  show ?case
  proof (cases "k \<noteq> this \<and> test l")
    case True
    then show ?thesis by auto
  next
    case False
    with Cons.prems obtain j' where j: "j = Suc j'" by (cases j) auto
    with Cons.prems have "j' < length ls" "Suc k + j' \<noteq> this" "test (ls ! j')" by auto
    from Cons.IH [OF this] obtain i where
      i: "FindOtherLayer test this (Suc k) ls = Some i" "Suc k \<le> i" "i \<le> Suc k + j'"
         "i \<noteq> this" "test (ls ! (i - Suc k))"
      by blast
    from i(2) have "(l # ls) ! (i - k) = ls ! (i - Suc k)"
      by (simp add: nth_Cons')
    with i False j show ?thesis by auto
  qed
qed

text \<open>
  Claim C3. The switch is part of what \<^verbatim>\<open>MyGetNextFeature\<close> does for a layer that
  requests more, its own array being empty (a layer with features in its array hands
  out the next of them). In interleaved mode, if the array of the requesting layer is
  empty, the requesting layer is the current layer and some other layer holds more than
  \<open>SWITCH_THRESHOLD\<close> (10000) features, then \<^verbatim>\<open>MyGetNextFeature\<close> returns no feature and
  names as the new current layer the first other layer, in layer order, that holds more
  than \<open>SWITCH_THRESHOLD\<close> features; \<^verbatim>\<open>GetNextFeature\<close> makes it the current layer of the
  data source. No chunk is parsed: the result is the same for every chunk parser, and
  the data source afterwards is the one before with \<^verbatim>\<open>m_bResetReadingAllowed\<close> set on
  the requesting layer, so the input and all feature arrays are as they were.
\<close>

theorem MyGetNextFeature_switch:
  assumes inter: "m_bInterleavedReading poDS"
    and inrange: "this < length (m_apoLayers poDS)"
    and empty: "m_apoFeatures (m_apoLayers poDS ! this) = []"
    and cur: "m_poCurrentLayer poDS = Some this"
    and j: "j < length (m_apoLayers poDS)" "j \<noteq> this"
    and many: "SWITCH_THRESHOLD < length (m_apoFeatures (m_apoLayers poDS ! j))"
  shows "\<exists>i poDS1.
      i < length (m_apoLayers poDS) \<and> i \<noteq> this \<and> i \<le> j
      \<and> SWITCH_THRESHOLD < length (m_apoFeatures (m_apoLayers poDS ! i))
      \<and> poDS1 = update_layer poDS this ((m_apoLayers poDS ! this)\<lparr>m_bResetReadingAllowed := True\<rparr>)
      \<and> m_stream poDS1 = m_stream poDS
      \<and> map m_apoFeatures (m_apoLayers poDS1) = map m_apoFeatures (m_apoLayers poDS)
      \<and> MyGetNextFeature ParseNextChunk poDS this = Some (None, Some i, poDS1)
      \<and> GetNextFeature ParseNextChunk poDS this
          = Some (None, poDS1\<lparr>m_poCurrentLayer := Some i\<rparr>)"
proof -
  let ?l = "(m_apoLayers poDS ! this)\<lparr>m_bResetReadingAllowed := True\<rparr>"
  let ?ds = "update_layer poDS this ?l"
  let ?ls = "m_apoLayers ?ds"
  have ls: "?ls = (m_apoLayers poDS)[this := ?l]"
    by (simp add: update_layer_def)
  have len: "length ?ls = length (m_apoLayers poDS)" by (simp add: ls)
  have other: "?ls ! i = m_apoLayers poDS ! i" if "i \<noteq> this" for i
    using that by (simp add: ls)
  have mine: "m_apoFeatures (this_layer ?ds this) = []"
    using inrange empty by (simp add: this_layer_def ls)
  from j many have "j < length ?ls" "0 + j \<noteq> this" "TooManyFeatures (?ls ! j)"
    by (simp_all add: len other TooManyFeatures_def)
  from FindOtherLayer_first [where test = TooManyFeatures and ls = ?ls and k = 0
      and j = j and this = this, OF this] obtain i where
    i: "FindOtherLayer TooManyFeatures this 0 ?ls = Some i" "i \<le> j" "i \<noteq> this"
       "TooManyFeatures (?ls ! i)"
    by auto
  from i j have ilen: "i < length (m_apoLayers poDS)" by simp
  from i have imany: "SWITCH_THRESHOLD < length (m_apoFeatures (m_apoLayers poDS ! i))"
    by (simp add: other TooManyFeatures_def)
  have feats: "map m_apoFeatures ?ls = map m_apoFeatures (m_apoLayers poDS)"
    using inrange by (simp add: ls map_update list_update_same_conv)
  have my: "MyGetNextFeature ParseNextChunk poDS this = Some (None, Some i, ?ds)"
    using inter cur mine i(1)
    by (simp add: MyGetNextFeature_def Let_def update_layer_def this_layer_def)
  then have get: "GetNextFeature ParseNextChunk poDS this
      = Some (None, ?ds\<lparr>m_poCurrentLayer := Some i\<rparr>)"
    by (simp add: GetNextFeature_def)
  have "m_stream ?ds = m_stream poDS" by (simp add: update_layer_def)
  with ilen i(2,3) imany feats my get show ?thesis by blast
qed

text \<open>
  The theorem on the example data source with an empty layer 0: no feature, and layer 1
  becomes the current layer.
\<close>

theorem MyGetNextFeature_switch_witness:
  "m_bInterleavedReading (example_datasource [])
   \<and> m_apoFeatures (m_apoLayers (example_datasource []) ! 0) = []
   \<and> m_poCurrentLayer (example_datasource []) = Some 0
   \<and> SWITCH_THRESHOLD < length (m_apoFeatures (m_apoLayers (example_datasource []) ! 1))
   \<and> map_option fst (MyGetNextFeature NoMoreChunks (example_datasource []) 0) = Some None
   \<and> map_option (fst \<circ> snd) (MyGetNextFeature NoMoreChunks (example_datasource []) 0) = Some (Some 1)
   \<and> map_option (m_poCurrentLayer \<circ> snd) (GetNextFeature NoMoreChunks (example_datasource []) 0)
        = Some (Some 1)"
proof -
  let ?ds = "example_datasource []"
  have h: "m_bInterleavedReading ?ds" "0 < length (m_apoLayers ?ds)"
    "m_apoFeatures (m_apoLayers ?ds ! 0) = []" "m_poCurrentLayer ?ds = Some 0"
    "1 < length (m_apoLayers ?ds)" "(1::nat) \<noteq> 0"
    "SWITCH_THRESHOLD < length (m_apoFeatures (m_apoLayers ?ds ! 1))"
    by (simp_all add: example_datasource_def example_layer_with_def example_layer_def
        SWITCH_THRESHOLD_def)
  from MyGetNextFeature_switch [OF h, of NoMoreChunks] obtain i poDS1 where
    r: "i \<noteq> 0" "i \<le> 1"
       "MyGetNextFeature NoMoreChunks ?ds 0 = Some (None, Some i, poDS1)"
       "GetNextFeature NoMoreChunks ?ds 0 = Some (None, poDS1\<lparr>m_poCurrentLayer := Some i\<rparr>)"
    by blast
  from r(1,2) have "i = 1" by simp
  with r(3,4) h show ?thesis by simp
qed

section \<open>Tags: the namespace rule, the fields, the aggregate\<close>

lemma takeWhile_first_colon:
  "c \<notin> set ns \<Longrightarrow> takeWhile (\<lambda>x. x \<noteq> c) (ns @ c # suffix) = ns"
  by (induction ns) auto

text \<open>
  Claim C4. For a key that contains a colon, written \<open>ns @ '':'' @ suffix\<close> with no colon
  in \<open>ns\<close> (so that \<open>ns @ '':''\<close> is the key up to and including its first colon), and
  that is not itself in the ignore set: \<^verbatim>\<open>AddInOtherOrAllTags\<close> excludes the tag exactly
  when \<open>ns @ '':''\<close> is in the ignore set. In particular a key \<^verbatim>\<open>ns:suffix\<close> with
  \<^verbatim>\<open>ns:\<close> ignored is excluded although \<^verbatim>\<open>ns:suffix\<close> is not ignored, and the loop over
  the tags then leaves \<^verbatim>\<open>m_osAllTagsBuffer\<close> as it is. For a tag that the loop considers
  for the aggregate (all\_tags is declared, or other\_tags is declared and the key is not
  the name of a field that takes the value), the buffer is left as it is exactly when
  \<open>ns @ '':''\<close> is in the ignore set.
\<close>

theorem AddInOtherOrAllTags_namespace:
  assumes "ns @ '':'' @ suffix \<notin> aoSetIgnoreKeys l" and "CHR '':'' \<notin> set ns"
  shows "(\<not> AddInOtherOrAllTags l (ns @ '':'' @ suffix)) = (ns @ '':'' \<in> aoSetIgnoreKeys l)
    \<and> (ns @ '':'' \<in> aoSetIgnoreKeys l \<longrightarrow>
         snd (SetFieldsFromTags_tag l bTagsAsHSTORE \<lparr>pszK = ns @ '':'' @ suffix, pszV = v\<rparr>
                (poFeature, osAllTagsBuffer)) = osAllTagsBuffer)
    \<and> (0 \<le> m_nIndexAllTags l
          \<or> (0 \<le> m_nIndexOtherTags l
              \<and> \<not> (0 \<le> GetFieldIndex l (ns @ '':'' @ suffix)
                    \<and> GetFieldIndex l (ns @ '':'' @ suffix) \<noteq> m_nIndexOSMId l)) \<longrightarrow>
         (snd (SetFieldsFromTags_tag l bTagsAsHSTORE \<lparr>pszK = ns @ '':'' @ suffix, pszV = v\<rparr>
                (poFeature, osAllTagsBuffer)) = osAllTagsBuffer)
           = (ns @ '':'' \<in> aoSetIgnoreKeys l))"
proof -
  from assms(2) have "takeWhile (\<lambda>c. c \<noteq> CHR '':'') (ns @ '':'' @ suffix) = ns"
    by (simp add: takeWhile_first_colon)
  with assms(1)
  have 1: "(\<not> AddInOtherOrAllTags l (ns @ '':'' @ suffix)) = (ns @ '':'' \<in> aoSetIgnoreKeys l)"
    by (simp add: AddInOtherOrAllTags_def)
  have 2: "snd (SetFieldsFromTags_tag l bTagsAsHSTORE \<lparr>pszK = ns @ '':'' @ suffix, pszV = v\<rparr>
                (poFeature, osAllTagsBuffer)) = osAllTagsBuffer"
    if "ns @ '':'' \<in> aoSetIgnoreKeys l"
    using that 1 by (auto simp: SetFieldsFromTags_tag_def Let_def)
  have 3: "snd (SetFieldsFromTags_tag l bTagsAsHSTORE \<lparr>pszK = ns @ '':'' @ suffix, pszV = v\<rparr>
                (poFeature, osAllTagsBuffer)) \<noteq> osAllTagsBuffer"
    if "ns @ '':'' \<notin> aoSetIgnoreKeys l"
      and "0 \<le> m_nIndexAllTags l
          \<or> (0 \<le> m_nIndexOtherTags l
              \<and> \<not> (0 \<le> GetFieldIndex l (ns @ '':'' @ suffix)
                    \<and> GetFieldIndex l (ns @ '':'' @ suffix) \<noteq> m_nIndexOSMId l))"
    using that 1
    by (auto simp: SetFieldsFromTags_tag_def Let_def OGROSMEscapeStringHSTORE_def
        OGROSMEscapeStringJSON_def)
  from 1 2 3 show ?thesis by blast
qed

text \<open>
  The theorem on the example layer, whose ignore set holds \<^verbatim>\<open>ns:\<close> and not
  \<^verbatim>\<open>ns:suffix\<close>: the tag is excluded and the buffer keeps its content.
\<close>

theorem AddInOtherOrAllTags_namespace_witness:
  "''ns:suffix'' \<notin> aoSetIgnoreKeys example_layer
   \<and> CHR '':'' \<notin> set ''ns''
   \<and> ''ns:'' \<in> aoSetIgnoreKeys example_layer
   \<and> 0 \<le> m_nIndexOtherTags example_layer
   \<and> \<not> 0 \<le> GetFieldIndex example_layer ''ns:suffix''
   \<and> \<not> AddInOtherOrAllTags example_layer ''ns:suffix''
   \<and> snd (SetFieldsFromTags_tag example_layer True \<lparr>pszK = ''ns:suffix'', pszV = ''x''\<rparr>
            (example_feature 1, ''abc'')) = ''abc''"
proof -
  have h: "''ns'' @ '':'' @ ''suffix'' \<notin> aoSetIgnoreKeys example_layer" "CHR '':'' \<notin> set ''ns''"
    by (simp_all add: example_layer_def)
  have i: "''ns'' @ '':'' \<in> aoSetIgnoreKeys example_layer"
    and j: "0 \<le> m_nIndexOtherTags example_layer"
    and k: "\<not> 0 \<le> GetFieldIndex example_layer (''ns'' @ '':'' @ ''suffix'')"
    by (simp_all add: example_layer_def GetFieldIndex_def)
  from AddInOtherOrAllTags_namespace [OF h, of True "''x''" "example_feature 1" "''abc''"] h i j k
  show ?thesis by simp
qed

lemma find_snoc:
  "find P (xs @ [x]) = (case find P xs of Some y \<Rightarrow> Some y | None \<Rightarrow> if P x then Some x else None)"
  by (induction xs) auto

lemma find_Some_set:
  "find P xs = Some x \<Longrightarrow> x \<in> set xs \<and> P x"
  by (induction xs) (auto split: if_splits)

text \<open>What one pass of the loop body does to a field slot.\<close>

lemma SetFieldsFromTags_tag_fields:
  "pauFields (fst (SetFieldsFromTags_tag l hs tag (f, buf))) i =
     (if GetFieldIndex l (pszK tag) = i \<and> 0 \<le> i \<and> i \<noteq> m_nIndexOSMId l
      then Some (VString (pszV tag)) else pauFields f i)"
  by (auto simp: SetFieldsFromTags_tag_def Let_def SetField_def)

text \<open>
  What the whole loop does to a field slot: the value of the last tag whose key names
  the slot, if there is one.
\<close>

lemma SetFieldsFromTags_tags_fields:
  "pauFields (fst (SetFieldsFromTags_tags l hs pasTags (f, buf))) i =
     (if 0 \<le> i \<and> i \<noteq> m_nIndexOSMId l then
        (case find (\<lambda>u. GetFieldIndex l (pszK u) = i) (rev pasTags) of
           Some u \<Rightarrow> Some (VString (pszV u))
         | None \<Rightarrow> pauFields f i)
      else pauFields f i)"
proof (induction pasTags arbitrary: f buf)
  case Nil
  then show ?case by simp
next
  case (Cons tag pasTags)
  obtain f1 buf1 where s: "SetFieldsFromTags_tag l hs tag (f, buf) = (f1, buf1)"
    by (cases "SetFieldsFromTags_tag l hs tag (f, buf)")
  have f1: "pauFields f1 i =
     (if GetFieldIndex l (pszK tag) = i \<and> 0 \<le> i \<and> i \<noteq> m_nIndexOSMId l
      then Some (VString (pszV tag)) else pauFields f i)"
    using SetFieldsFromTags_tag_fields [of l hs tag f buf i] by (simp add: s)
  show ?case
    by (auto simp: s Cons.IH f1 find_snoc split: option.splits)
qed

lemma GetFieldIndex_eq_int:
  "(GetFieldIndex l k = int i) = (m_oMapFieldNameToIndex l k = Some i)"
  by (simp add: GetFieldIndex_def split: option.splits)

text \<open>
  A pass of the loop body either keeps the buffer or leaves it non-empty, and which of
  the two does not depend on the feature or on the buffer.
\<close>

lemma SetFieldsFromTags_tag_buffer:
  "(snd (SetFieldsFromTags_tag l hs tag (f, buf)) = buf
      \<and> snd (SetFieldsFromTags_tag l hs tag (f0, [])) = [])
   \<or> (snd (SetFieldsFromTags_tag l hs tag (f, buf)) \<noteq> []
      \<and> snd (SetFieldsFromTags_tag l hs tag (f0, [])) \<noteq> [])"
  by (auto simp: SetFieldsFromTags_tag_def Let_def OGROSMEscapeStringHSTORE_def
      OGROSMEscapeStringJSON_def)

lemma SetFieldsFromTags_tags_buffer_empty:
  "(snd (SetFieldsFromTags_tags l hs pasTags (f, buf)) = [])
     = (buf = [] \<and> (\<forall>tag\<in>set pasTags. snd (SetFieldsFromTags_tag l hs tag (f0, [])) = []))"
proof (induction pasTags arbitrary: f buf)
  case Nil
  then show ?case by simp
next
  case (Cons tag pasTags)
  obtain f1 buf1 where s: "SetFieldsFromTags_tag l hs tag (f, buf) = (f1, buf1)"
    by (cases "SetFieldsFromTags_tag l hs tag (f, buf)")
  from SetFieldsFromTags_tag_buffer [of l hs tag f buf f0] s
  have "(buf1 = buf \<and> snd (SetFieldsFromTags_tag l hs tag (f0, [])) = [])
      \<or> (buf1 \<noteq> [] \<and> snd (SetFieldsFromTags_tag l hs tag (f0, [])) \<noteq> [])"
    by simp
  then show ?case
    by (auto simp: s Cons.IH)
qed

lemma SetFieldsFromTags_aggregate_empty:
  "SetFieldsFromTags_aggregate l hs (f, []) = f"
  by (simp add: SetFieldsFromTags_aggregate_def)

text \<open>
  Claim C10, as amended. If, after the loop over the tags, the buffer is empty, which is
  the case exactly when no tag was added to it, then the statement that writes the
  aggregate field writes nothing: the feature is as the loop left it, so the aggregate
  field is not set to an empty string, to an empty list of pairs or to \<^verbatim>\<open>{}\<close>. The
  field is then unset whenever the feature came in with it unset and no tag has a key
  that names this field; a tag whose key is the name of the aggregate field itself has
  its value stored there by the loop, like the value of any tag that names a field.
\<close>

theorem SetFieldsFromTags_aggregate_not_written:
  assumes "snd (SetFieldsFromTags_tags l bTagsAsHSTORE pasTags (poFeature, [])) = []"
  shows "(\<forall>tag\<in>set pasTags. snd (SetFieldsFromTags_tag l bTagsAsHSTORE tag (poFeature, [])) = [])
    \<and> SetFieldsFromTags_aggregate l bTagsAsHSTORE
         (SetFieldsFromTags_tags l bTagsAsHSTORE pasTags (poFeature, []))
        = fst (SetFieldsFromTags_tags l bTagsAsHSTORE pasTags (poFeature, []))
    \<and> (pauFields poFeature nIdx = None
         \<and> (\<forall>tag\<in>set pasTags. GetFieldIndex l (pszK tag) \<noteq> nIdx) \<longrightarrow>
         pauFields (SetFieldsFromTags_aggregate l bTagsAsHSTORE
           (SetFieldsFromTags_tags l bTagsAsHSTORE pasTags (poFeature, []))) nIdx = None)"
proof -
  obtain f1 buf1 where s: "SetFieldsFromTags_tags l bTagsAsHSTORE pasTags (poFeature, []) = (f1, buf1)"
    by (cases "SetFieldsFromTags_tags l bTagsAsHSTORE pasTags (poFeature, [])")
  with assms have buf1: "buf1 = []" by simp
  have a: "\<forall>tag\<in>set pasTags. snd (SetFieldsFromTags_tag l bTagsAsHSTORE tag (poFeature, [])) = []"
    using assms SetFieldsFromTags_tags_buffer_empty [of l bTagsAsHSTORE pasTags poFeature "[]" poFeature]
    by simp
  have b: "SetFieldsFromTags_aggregate l bTagsAsHSTORE
         (SetFieldsFromTags_tags l bTagsAsHSTORE pasTags (poFeature, []))
        = fst (SetFieldsFromTags_tags l bTagsAsHSTORE pasTags (poFeature, []))"
    by (simp add: s buf1 SetFieldsFromTags_aggregate_empty)
  have c: "pauFields (fst (SetFieldsFromTags_tags l bTagsAsHSTORE pasTags (poFeature, []))) nIdx = None"
    if "pauFields poFeature nIdx = None"
      and "\<forall>tag\<in>set pasTags. GetFieldIndex l (pszK tag) \<noteq> nIdx"
  proof -
    from that(2) have "find (\<lambda>u. GetFieldIndex l (pszK u) = nIdx) (rev pasTags) = None"
      by (simp add: find_None_iff)
    with that(1) show ?thesis
      by (simp add: SetFieldsFromTags_tags_fields)
  qed
  from a b c show ?thesis by simp
qed

text \<open>
  The theorem on the example layer (other\_tags is field 3) for the tags
  \<^verbatim>\<open>highway=residential\<close>, which goes to its field, and \<^verbatim>\<open>created_by=JOSM\<close>, which is
  ignored: the buffer is empty and field 3 stays unset.
\<close>

theorem SetFieldsFromTags_aggregate_not_written_witness:
  "snd (SetFieldsFromTags_tags example_layer True
          [example_tag ''highway'' ''residential'', example_tag ''created_by'' ''JOSM'']
          (example_feature 42, [])) = []
   \<and> pauFields (example_feature 42) 3 = None
   \<and> pauFields (SetFieldsFromTags_aggregate example_layer True
        (SetFieldsFromTags_tags example_layer True
           [example_tag ''highway'' ''residential'', example_tag ''created_by'' ''JOSM'']
           (example_feature 42, []))) 3 = None"
proof -
  let ?ts = "[example_tag ''highway'' ''residential'', example_tag ''created_by'' ''JOSM'']"
  have h: "snd (SetFieldsFromTags_tags example_layer True ?ts (example_feature 42, [])) = []"
    by (simp add: SetFieldsFromTags_tag_def Let_def example_layer_def example_tag_def
        GetFieldIndex_def AddInOtherOrAllTags_def)
  have u: "pauFields (example_feature 42) 3 = None"
    by (simp add: example_feature_def)
  have k: "\<forall>tag\<in>set ?ts. GetFieldIndex example_layer (pszK tag) \<noteq> 3"
    by (simp add: example_layer_def example_tag_def GetFieldIndex_def)
  from SetFieldsFromTags_aggregate_not_written [OF h, of 3] h u k
  show ?thesis by blast
qed

text \<open>
  The claim as it was stated fails: for the single tag with key \<^verbatim>\<open>other_tags\<close> and an
  empty value, on the example layer (other\_tags is field 3, added by \<^verbatim>\<open>AddField\<close> and so
  known to \<^verbatim>\<open>m_oMapFieldNameToIndex\<close>) and a feature with no field set, no tag is added
  to the buffer, and the aggregate field ends up set, to the empty string, after the
  statement that writes the aggregate and at the end of \<^verbatim>\<open>SetFieldsFromTags\<close>.
\<close>

theorem SetFieldsFromTags_aggregate_counterexample:
  "snd (SetFieldsFromTags_tags example_layer True [example_tag ''other_tags'' []]
          (example_feature 42, [])) = []
   \<and> m_nIndexOtherTags example_layer = 3
   \<and> pauFields (example_feature 42) 3 = None
   \<and> pauFields (SetFieldsFromTags_aggregate example_layer True
        (SetFieldsFromTags_tags example_layer True [example_tag ''other_tags'' []]
           (example_feature 42, []))) 3 = Some (VString [])
   \<and> pauFields (fst (SetFieldsFromTags example_engine example_getters True example_layer
        (example_feature 42) [example_tag ''other_tags'' []])) 3 = Some (VString [])"
proof -
  have a: "m_oComputedAttributes example_layer = []"
    by (simp add: example_layer_def)
  have b: "fst (SetFieldsFromTags example_engine example_getters True example_layer
        (example_feature 42) [example_tag ''other_tags'' []])
      = SetFieldsFromTags_aggregate example_layer True
        (SetFieldsFromTags_tags example_layer True [example_tag ''other_tags'' []]
           (example_feature 42, []))"
    unfolding SetFieldsFromTags_def Let_def a by simp
  show ?thesis
    unfolding b
    by (simp add: SetFieldsFromTags_tag_def SetFieldsFromTags_aggregate_def Let_def
        example_layer_def example_tag_def example_feature_def GetFieldIndex_def SetField_def)
qed

section \<open>Placeholders of a computed attribute\<close>

lemma takeWhile_neq_less:
  "ch \<in> set xs \<Longrightarrow> length (takeWhile (\<lambda>c. c \<noteq> ch) xs) < length xs"
  by (induction xs) auto

lemma takeWhile_neq_append:
  "ch \<notin> set xs \<Longrightarrow>
   takeWhile (\<lambda>c. c \<noteq> ch) (xs @ ys) = xs @ takeWhile (\<lambda>c. c \<noteq> ch) ys"
  by (induction xs) auto

lemma string_find_Some:
  assumes "string_find s ch pos = Some n"
  shows "pos \<le> n" and "n < length s" and "s ! n = ch"
proof -
  let ?r = "drop pos s"
  let ?k = "length (takeWhile (\<lambda>c. c \<noteq> ch) ?r)"
  from assms have m: "ch \<in> set ?r" and n: "n = pos + ?k"
    by (auto simp: string_find_def split: if_splits)
  from m have k: "?k < length ?r"
    by (rule takeWhile_neq_less)
  from n show "pos \<le> n" by simp
  from n k show "n < length s" by simp
  from k have "?r ! ?k = ch"
    using nth_length_takeWhile [of "\<lambda>c. c \<noteq> ch" ?r] by simp
  with n k show "s ! n = ch" by simp
qed

lemma ExtractPlaceholders_same_find:
  "string_find sSQL (CHR ''['') p = string_find sSQL (CHR ''['') q \<Longrightarrow>
   ExtractPlaceholders poDefn sSQL p aos an = ExtractPlaceholders poDefn sSQL q aos an"
  by (simp add: ExtractPlaceholders.simps [of poDefn sSQL p]
      ExtractPlaceholders.simps [of poDefn sSQL q])

lemma ExtractPlaceholders_none:
  "string_find sSQL (CHR ''['') nStartSearch = None \<Longrightarrow>
   ExtractPlaceholders poDefn sSQL nStartSearch aos an = (sSQL, aos, an)"
  by (simp add: ExtractPlaceholders.simps [of poDefn sSQL nStartSearch])

lemma ExtractPlaceholders_skip:
  "string_find sSQL (CHR ''['') nStartSearch = Some nPos \<Longrightarrow>
   nPos = 0 \<or> sSQL ! (nPos - 1) = chBackslash \<Longrightarrow>
   ExtractPlaceholders poDefn sSQL nStartSearch aos an
     = ExtractPlaceholders poDefn sSQL (nPos + 1) aos an"
  by (auto simp: ExtractPlaceholders.simps [of poDefn sSQL nStartSearch])

text \<open>The loop never changes the text before the position it searches from.\<close>

lemma ExtractPlaceholders_prefix:
  "take nStartSearch (fst (ExtractPlaceholders poDefn sSQL nStartSearch aos an))
     = take nStartSearch sSQL"
proof (induction poDefn sSQL nStartSearch aos an rule: ExtractPlaceholders.induct)
  case (1 poDefn sSQL nStartSearch aos an)
  show ?case
  proof (cases "string_find sSQL (CHR ''['') nStartSearch")
    case None
    then show ?thesis
      by (simp add: ExtractPlaceholders.simps [of poDefn sSQL nStartSearch])
  next
    case (Some nPos)
    from string_find_Some [OF Some] have le: "nStartSearch \<le> nPos" and lt: "nPos < length sSQL"
      by simp_all
    show ?thesis
    proof (cases "nPos > 0 \<and> sSQL ! (nPos - 1) \<noteq> chBackslash")
      case False
      from "1.IH"(2) [OF Some False]
      have "take (nPos + 1) (fst (ExtractPlaceholders poDefn sSQL (nPos + 1) aos an))
              = take (nPos + 1) sSQL" .
      then have "take nStartSearch (take (nPos + 1) (fst (ExtractPlaceholders poDefn sSQL (nPos + 1) aos an)))
              = take nStartSearch (take (nPos + 1) sSQL)" by simp
      with le have "take nStartSearch (fst (ExtractPlaceholders poDefn sSQL (nPos + 1) aos an))
              = take nStartSearch sSQL"
        by (simp add: min_def)
      with Some False show ?thesis
        by (auto simp: ExtractPlaceholders.simps [of poDefn sSQL nStartSearch])
    next
      case True
      show ?thesis
      proof (cases "string_find (drop (nPos + 1) sSQL) (CHR '']'') 0")
        case None
        with Some True show ?thesis
          by (simp add: ExtractPlaceholders.simps [of poDefn sSQL nStartSearch])
      next
        case (Some nPos2)
        let ?s1 = "take nPos sSQL @ ''?'' @ drop (nPos + 1 + nPos2 + 1) sSQL"
        let ?aos1 = "aos @ [take nPos2 (drop (nPos + 1) sSQL)]"
        let ?an1 = "an @ [FeatureDefn_GetFieldIndex poDefn (take nPos2 (drop (nPos + 1) sSQL))]"
        note f1 = \<open>string_find sSQL (CHR ''['') nStartSearch = Some nPos\<close>
        from "1.IH"(1) [OF f1 True Some]
        have "take (nPos + 1) (fst (ExtractPlaceholders poDefn ?s1 (nPos + 1) ?aos1 ?an1))
                = take (nPos + 1) ?s1" .
        then have "take nStartSearch (take (nPos + 1)
                     (fst (ExtractPlaceholders poDefn ?s1 (nPos + 1) ?aos1 ?an1)))
                = take nStartSearch (take (nPos + 1) ?s1)" by simp
        with le have "take nStartSearch (fst (ExtractPlaceholders poDefn ?s1 (nPos + 1) ?aos1 ?an1))
                = take nStartSearch ?s1"
          by (simp add: min_def)
        also from le lt have "take nStartSearch ?s1 = take nStartSearch sSQL"
          by (simp add: min_def)
        finally show ?thesis
          using f1 True Some
          by (simp add: ExtractPlaceholders.simps [of poDefn sSQL nStartSearch])
      qed
    qed
  qed
qed

text \<open>The second loop never changes a prefix that holds no backslash.\<close>

lemma RemoveBackslashes_prefix:
  "chBackslash \<notin> set (take n sSQL) \<Longrightarrow> take n (RemoveBackslashes sSQL) = take n sSQL"
proof (induction sSQL rule: RemoveBackslashes.induct)
  case (1 sSQL)
  show ?case
  proof (cases "string_find sSQL chBackslash 0")
    case None
    then show ?thesis by (simp add: RemoveBackslashes.simps [of sSQL])
  next
    case (Some nPos)
    from string_find_Some [OF Some] have lt: "nPos < length sSQL" and at: "sSQL ! nPos = chBackslash"
      by simp_all
    have le: "n \<le> nPos"
    proof (rule ccontr)
      assume "\<not> n \<le> nPos"
      with lt have "sSQL ! nPos \<in> set (take n sSQL)"
        by (auto simp: in_set_conv_nth intro!: exI [of _ nPos])
      with at "1.prems" show False by simp
    qed
    show ?thesis
    proof (cases "nPos = length sSQL - 1")
      case True
      with Some show ?thesis by (simp add: RemoveBackslashes.simps [of sSQL])
    next
      case False
      let ?s1 = "take nPos sSQL @ drop (nPos + 1) sSQL"
      from le lt have eq: "take n ?s1 = take n sSQL" by (simp add: min_def)
      with "1.prems" have "chBackslash \<notin> set (take n ?s1)" by simp
      from "1.IH" [OF Some False this] eq have "take n (RemoveBackslashes ?s1) = take n sSQL"
        by simp
      with Some False show ?thesis by (simp add: RemoveBackslashes.simps [of sSQL])
    qed
  qed
qed

text \<open>
  Claim C9. An opening bracket at position 0 is never taken as a placeholder, and
  neither is one that follows a backslash: when the first bracket found from the search
  position is at position 0 or follows a backslash, the loop goes on behind it with the
  expression and the lists of parameters as they are. So for an expression that starts
  with \<^verbatim>\<open>[name]\<close> (no opening bracket inside \<open>name\<close>) the extraction is the one that
  starts searching behind \<^verbatim>\<open>[name]\<close>: the rewritten expression still starts with
  \<^verbatim>\<open>[name]\<close>, no parameter is bound for it, and with no other opening bracket the
  expression is unchanged and no parameter is bound at all. The text \<^verbatim>\<open>[name]\<close> also
  survives the removal of the backslashes when \<open>name\<close> holds none.
\<close>

theorem ExtractPlaceholders_bracket_at_0:
  assumes "CHR ''['' \<notin> set name"
  shows "ExtractPlaceholders poDefn (''['' @ name @ '']'' @ rest) 0 [] []
           = ExtractPlaceholders poDefn (''['' @ name @ '']'' @ rest) (length name + 2) [] []
    \<and> take (length name + 2) (fst (ExtractPlaceholders poDefn (''['' @ name @ '']'' @ rest) 0 [] []))
         = ''['' @ name @ '']''
    \<and> (CHR ''['' \<notin> set rest \<longrightarrow>
         ExtractPlaceholders poDefn (''['' @ name @ '']'' @ rest) 0 [] []
           = (''['' @ name @ '']'' @ rest, [], []))
    \<and> (chBackslash \<notin> set name \<longrightarrow>
         take (length name + 2)
           (RemoveBackslashes (fst (ExtractPlaceholders poDefn (''['' @ name @ '']'' @ rest) 0 [] [])))
         = ''['' @ name @ '']'')
    \<and> (string_find sSQL (CHR ''['') nStartSearch = Some nPos
         \<and> (nPos = 0 \<or> sSQL ! (nPos - 1) = chBackslash) \<longrightarrow>
         ExtractPlaceholders poDefn sSQL nStartSearch aos an
           = ExtractPlaceholders poDefn sSQL (nPos + 1) aos an)"
proof -
  let ?s = "''['' @ name @ '']'' @ rest"
  let ?n = "length name + 2"
  have f0: "string_find ?s (CHR ''['') 0 = Some 0"
    by (simp add: string_find_def)
  have tw: "takeWhile (\<lambda>c. c \<noteq> CHR ''['') (name @ CHR '']'' # rest)
              = name @ CHR '']'' # takeWhile (\<lambda>c. c \<noteq> CHR ''['') rest"
    using assms by (simp add: takeWhile_neq_append)
  have f1: "string_find ?s (CHR ''['') 1 = string_find ?s (CHR ''['') ?n"
    using assms by (simp add: string_find_def tw)
  from ExtractPlaceholders_skip [OF f0]
  have "ExtractPlaceholders poDefn ?s 0 [] [] = ExtractPlaceholders poDefn ?s 1 [] []"
    by simp
  also from f1 have "\<dots> = ExtractPlaceholders poDefn ?s ?n [] []"
    by (rule ExtractPlaceholders_same_find)
  finally have a: "ExtractPlaceholders poDefn ?s 0 [] [] = ExtractPlaceholders poDefn ?s ?n [] []" .
  have "take ?n (fst (ExtractPlaceholders poDefn ?s ?n [] [])) = take ?n ?s"
    by (rule ExtractPlaceholders_prefix)
  with a have b: "take ?n (fst (ExtractPlaceholders poDefn ?s 0 [] [])) = ''['' @ name @ '']''"
    by simp
  have c: "ExtractPlaceholders poDefn ?s 0 [] [] = (?s, [], [])" if "CHR ''['' \<notin> set rest"
  proof -
    from that have "string_find ?s (CHR ''['') ?n = None"
      by (simp add: string_find_def)
    then have "ExtractPlaceholders poDefn ?s ?n [] [] = (?s, [], [])"
      by (rule ExtractPlaceholders_none)
    with a show ?thesis by simp
  qed
  have d: "take ?n (RemoveBackslashes (fst (ExtractPlaceholders poDefn ?s 0 [] [])))
         = ''['' @ name @ '']''" if "chBackslash \<notin> set name"
  proof -
    from that b have "chBackslash \<notin> set (take ?n (fst (ExtractPlaceholders poDefn ?s 0 [] [])))"
      by (simp add: chBackslash_def)
    from RemoveBackslashes_prefix [OF this] b show ?thesis by simp
  qed
  have e: "ExtractPlaceholders poDefn sSQL nStartSearch aos an
           = ExtractPlaceholders poDefn sSQL (nPos + 1) aos an"
    if "string_find sSQL (CHR ''['') nStartSearch = Some nPos
         \<and> (nPos = 0 \<or> sSQL ! (nPos - 1) = chBackslash)"
  proof -
    from that have "string_find sSQL (CHR ''['') nStartSearch = Some nPos"
      and "nPos = 0 \<or> sSQL ! (nPos - 1) = chBackslash" by simp_all
    then show ?thesis by (rule ExtractPlaceholders_skip)
  qed
  from a b c d e show ?thesis by blast
qed

text \<open>
  The theorem on the expression \<^verbatim>\<open>[name]\<close> for the example layer, which has a field
  \<^verbatim>\<open>name\<close>: the expression is kept as it is and no parameter is bound.
\<close>

theorem ExtractPlaceholders_bracket_at_0_witness:
  "CHR ''['' \<notin> set ''name''
   \<and> CHR ''['' \<notin> set ''''
   \<and> chBackslash \<notin> set ''name''
   \<and> ExtractPlaceholders (m_poFeatureDefn example_layer) (''['' @ ''name'' @ '']'' @ []) 0 [] []
       = (''['' @ ''name'' @ '']'' @ [], [], [])
   \<and> take (length ''name'' + 2) (RemoveBackslashes (fst
        (ExtractPlaceholders (m_poFeatureDefn example_layer) (''['' @ ''name'' @ '']'' @ []) 0 [] [])))
       = ''['' @ ''name'' @ '']''
   \<and> ''['' @ ''name'' @ '']'' @ [] = ''[name]''"
proof -
  have h: "CHR ''['' \<notin> set ''name''" by simp
  have r: "CHR ''['' \<notin> set ''''" by simp
  have b: "chBackslash \<notin> set ''name''" by (simp add: chBackslash_def)
  have s: "''['' @ ''name'' @ '']'' @ [] = ''[name]''" by simp
  from ExtractPlaceholders_bracket_at_0 [OF h, of "m_poFeatureDefn example_layer" "[]"] h r b s
  show ?thesis by blast
qed

section \<open>Declaring a computed attribute\<close>

lemma FeatureDefn_GetFieldIndex_from_range:
  "0 \<le> i \<Longrightarrow>
   (0 \<le> FeatureDefn_GetFieldIndex_from i poDefn pszName) = (pszName \<in> fst ` set poDefn)"
  by (induction poDefn arbitrary: i) auto

lemma FeatureDefn_GetFieldIndex_collides:
  "(0 \<le> FeatureDefn_GetFieldIndex poDefn pszName) = (pszName \<in> fst ` set poDefn)"
  by (simp add: FeatureDefn_GetFieldIndex_def FeatureDefn_GetFieldIndex_from_range)

text \<open>
  Claim C5. \<^verbatim>\<open>AddComputedAttribute\<close> raises an error exactly when the database of the
  data source is not open yet and opening it fails, or the name is the name of a field
  of the layer, or the expression (after the placeholders and the backslashes have been
  rewritten) does not compile. In each of these cases a single error of class
  \<^verbatim>\<open>CE_Failure\<close> is raised, the function returns, and the layer, with its field
  definitions and its computed attributes, is as before. In every other case no error
  is raised, the field is appended to the field definitions and the attribute to the
  computed attributes.
\<close>

theorem AddComputedAttribute_failure:
  assumes "res = AddComputedAttribute sqlite3_open_v2 sqlite3_prepare_v2 hDB l pszName eTypeIn pszSQL"
    and "failing \<longleftrightarrow>
           (hDB = None \<and> fst sqlite3_open_v2 \<noteq> SQLITE_OK)
           \<or> pszName \<in> fst ` set (m_poFeatureDefn l)
           \<or> fst (sqlite3_prepare_v2 (if hDB = None then snd sqlite3_open_v2 else hDB)
                 (RemoveBackslashes (fst (ExtractPlaceholders (m_poFeatureDefn l) pszSQL 0 [] []))))
               \<noteq> SQLITE_OK"
  shows "(fst res \<noteq> []) = failing
    \<and> (failing \<longrightarrow>
          fst res = [(CE_Failure, CPLE_AppDefined)]
          \<and> snd (snd res) = l
          \<and> m_poFeatureDefn (snd (snd res)) = m_poFeatureDefn l
          \<and> m_oComputedAttributes (snd (snd res)) = m_oComputedAttributes l)
    \<and> (\<not> failing \<longrightarrow>
          fst res = []
          \<and> m_poFeatureDefn (snd (snd res)) = m_poFeatureDefn l @ [(pszName, eTypeIn)]
          \<and> butlast (m_oComputedAttributes (snd (snd res))) = m_oComputedAttributes l
          \<and> osName (last (m_oComputedAttributes (snd (snd res)))) = pszName
          \<and> nIndex (last (m_oComputedAttributes (snd (snd res)))) = int (length (m_poFeatureDefn l)))"
proof -
  obtain sSQL1 aos an where x: "ExtractPlaceholders (m_poFeatureDefn l) pszSQL 0 [] [] = (sSQL1, aos, an)"
    by (cases "ExtractPlaceholders (m_poFeatureDefn l) pszSQL 0 [] []")
  obtain rc stmt where p:
    "sqlite3_prepare_v2 (if hDB = None then snd sqlite3_open_v2 else hDB) (RemoveBackslashes sSQL1)
       = (rc, stmt)"
    by (cases "sqlite3_prepare_v2 (if hDB = None then snd sqlite3_open_v2 else hDB)
          (RemoveBackslashes sSQL1)")
  from assms(2) x p have f: "failing \<longleftrightarrow>
      (hDB = None \<and> fst sqlite3_open_v2 \<noteq> SQLITE_OK)
      \<or> 0 \<le> FeatureDefn_GetFieldIndex (m_poFeatureDefn l) pszName
      \<or> rc \<noteq> SQLITE_OK"
    by (simp add: FeatureDefn_GetFieldIndex_collides)
  show ?thesis
  proof (cases failing)
    case True
    with f p have "res = ([(CE_Failure, CPLE_AppDefined)],
        (if hDB = None then snd sqlite3_open_v2 else hDB), l)"
      by (cases hDB) (auto simp: assms(1) AddComputedAttribute_def Let_def x)
    with True show ?thesis by simp
  next
    case False
    with f have "res = ([], (if hDB = None then snd sqlite3_open_v2 else hDB),
        l\<lparr>m_poFeatureDefn := m_poFeatureDefn l @ [(pszName, eTypeIn)],
          m_oComputedAttributes := m_oComputedAttributes l @
            [\<lparr>osName = pszName,
              nIndex = int (length (m_poFeatureDefn l @ [(pszName, eTypeIn)])) - 1,
              eType = eTypeIn, osSQL = pszSQL, hStmt = stmt,
              aosAttrToBind = aos, anIndexToBind = an,
              bHardcodedZOrder = (eTypeIn = OFTInteger \<and> pszSQL = ZOrderSQL)\<rparr>]\<rparr>)"
      using p by (cases hDB) (auto simp: assms(1) AddComputedAttribute_def Let_def x)
    with False show ?thesis by simp
  qed
qed

text \<open>
  The theorem on the example layer: declaring an attribute named \<^verbatim>\<open>highway\<close>, the name
  of a field, fails and leaves the layer as it is, also with an SQLite that opens and
  compiles; declaring \<^verbatim>\<open>z\<close> fails when the expression does not compile, and succeeds
  when it does.
\<close>

theorem AddComputedAttribute_failure_witness:
  "fst (AddComputedAttribute example_open example_prepare None example_layer
          ''highway'' OFTInteger ''SELECT 1'') = [(CE_Failure, CPLE_AppDefined)]
   \<and> snd (snd (AddComputedAttribute example_open example_prepare None example_layer
          ''highway'' OFTInteger ''SELECT 1'')) = example_layer
   \<and> fst (AddComputedAttribute example_open example_prepare_error None example_layer
          ''z'' OFTInteger ''SELECT 1'') = [(CE_Failure, CPLE_AppDefined)]
   \<and> snd (snd (AddComputedAttribute example_open example_prepare_error None example_layer
          ''z'' OFTInteger ''SELECT 1'')) = example_layer
   \<and> fst (AddComputedAttribute example_open example_prepare None example_layer
          ''z'' OFTInteger ''SELECT 1'') = []
   \<and> m_poFeatureDefn (snd (snd (AddComputedAttribute example_open example_prepare None
          example_layer ''z'' OFTInteger ''SELECT 1'')))
       = m_poFeatureDefn example_layer @ [(''z'', OFTInteger)]"
proof -
  have c: "''highway'' \<in> fst ` set (m_poFeatureDefn example_layer)"
    by (simp add: example_layer_def)
  have n: "''z'' \<notin> fst ` set (m_poFeatureDefn example_layer)"
    by (simp add: example_layer_def)
  have o: "\<not> (None = (None :: nat option) \<and> fst example_open \<noteq> SQLITE_OK)"
    by (simp add: example_open_def)
  have e: "fst (example_prepare_error x y) \<noteq> SQLITE_OK" for x y
    by (simp add: example_prepare_error_def SQLITE_OK_def)
  have g: "\<not> fst (example_prepare x y) \<noteq> SQLITE_OK" for x y
    by (simp add: example_prepare_def)
  from AddComputedAttribute_failure [OF refl, of True None example_open "''highway''"
      example_layer example_prepare "''SELECT 1''" OFTInteger] c
  have 1: "fst (AddComputedAttribute example_open example_prepare None example_layer
          ''highway'' OFTInteger ''SELECT 1'') = [(CE_Failure, CPLE_AppDefined)]
     \<and> snd (snd (AddComputedAttribute example_open example_prepare None example_layer
          ''highway'' OFTInteger ''SELECT 1'')) = example_layer"
    by blast
  from AddComputedAttribute_failure [OF refl, of True None example_open "''z''"
      example_layer example_prepare_error "''SELECT 1''" OFTInteger] e
  have 2: "fst (AddComputedAttribute example_open example_prepare_error None example_layer
          ''z'' OFTInteger ''SELECT 1'') = [(CE_Failure, CPLE_AppDefined)]
     \<and> snd (snd (AddComputedAttribute example_open example_prepare_error None example_layer
          ''z'' OFTInteger ''SELECT 1'')) = example_layer"
    by blast
  from AddComputedAttribute_failure [OF refl, of False None example_open "''z''"
      example_layer example_prepare "''SELECT 1''" OFTInteger] n o g
  have 3: "fst (AddComputedAttribute example_open example_prepare None example_layer
          ''z'' OFTInteger ''SELECT 1'') = []
     \<and> m_poFeatureDefn (snd (snd (AddComputedAttribute example_open example_prepare None
          example_layer ''z'' OFTInteger ''SELECT 1'')))
       = m_poFeatureDefn example_layer @ [(''z'', OFTInteger)]"
    by blast
  from 1 2 3 show ?thesis by blast
qed

section \<open>A layer with a computed attribute among its fields\<close>

text \<open>
  The layer of the example, before its computed attributes are declared, is what three
  calls of \<^verbatim>\<open>AddField\<close> make of a layer without fields.
\<close>

lemma example_layer_undeclared_added:
  "AddField True 256
     (AddField True 256
        (AddField True 256 example_layer_no_field ''osm_id'' OFTString)
        ''name'' OFTString)
     ''other_tags'' OFTString
   = example_layer_undeclared"
  by (simp add: AddField_def Let_def GetLaunderedFieldName_def example_layer_no_field_def
      example_layer_undeclared_def numeral_2_eq_2)

text \<open>
  The example layer with the computed \<^verbatim>\<open>highway\<close> is what two calls of
  \<^verbatim>\<open>AddComputedAttribute\<close> make: \<^verbatim>\<open>highway\<close> with the expression \<^verbatim>\<open>SELECT NULL\<close>, then
  \<^verbatim>\<open>z_order\<close> with the hardcoded expression, whose six placeholders are extracted and
  the first of them bound to field 3.
\<close>

lemma RemoveBackslashes_none:
  "string_find sSQL chBackslash 0 = None \<Longrightarrow> RemoveBackslashes sSQL = sSQL"
  by (simp add: RemoveBackslashes.simps [of sSQL])

lemma ZOrderSQL_placeholders:
  "ExtractPlaceholders
     [(''osm_id'', OFTString), (''name'', OFTString), (''other_tags'', OFTString),
      (''highway'', OFTString)] ZOrderSQL 0 [] []
   = (ZOrderSQL_prepared,
      [''highway'', ''bridge'', ''tunnel'', ''railway'', ''layer'', ''layer''],
      [3, -1, -1, -1, -1, -1])"
  by (simp add: ExtractPlaceholders.simps string_find_def ZOrderSQL_def ZOrderSQL_prepared_def
      FeatureDefn_GetFieldIndex_def chBackslash_def)

lemma ZOrderSQL_prepared_no_backslash:
  "string_find ZOrderSQL_prepared chBackslash 0 = None"
  by (simp add: string_find_def ZOrderSQL_prepared_def chBackslash_def)

lemma example_layer_computed_highway_declared:
  "AddComputedAttribute example_open example_prepare (Some 1)
     (snd (snd (AddComputedAttribute example_open example_prepare None
        example_layer_undeclared ''highway'' OFTString ''SELECT NULL'')))
     ''z_order'' OFTInteger ZOrderSQL
   = ([], Some 1, example_layer_computed_highway)"
proof -
  let ?l1 = "example_layer_undeclared
       \<lparr>m_poFeatureDefn := [(''osm_id'', OFTString), (''name'', OFTString),
           (''other_tags'', OFTString), (''highway'', OFTString)],
        m_oComputedAttributes := [example_null_attribute]\<rparr>"
  have x1: "ExtractPlaceholders (m_poFeatureDefn example_layer_undeclared) ''SELECT NULL'' 0 [] []
      = (''SELECT NULL'', [], [])"
    by (rule ExtractPlaceholders_none) (simp add: string_find_def)
  have r1: "RemoveBackslashes ''SELECT NULL'' = ''SELECT NULL''"
    by (rule RemoveBackslashes_none) (simp add: string_find_def chBackslash_def)
  have 1: "snd (snd (AddComputedAttribute example_open example_prepare None
        example_layer_undeclared ''highway'' OFTString ''SELECT NULL'')) = ?l1"
    unfolding AddComputedAttribute_def Let_def x1
    by (simp add: r1 example_open_def example_prepare_def example_layer_undeclared_def
        example_null_attribute_def FeatureDefn_GetFieldIndex_def SQLITE_OK_def)
  have d: "m_poFeatureDefn ?l1 = [(''osm_id'', OFTString), (''name'', OFTString),
           (''other_tags'', OFTString), (''highway'', OFTString)]"
    by simp
  have r2: "RemoveBackslashes ZOrderSQL_prepared = ZOrderSQL_prepared"
    by (rule RemoveBackslashes_none) (rule ZOrderSQL_prepared_no_backslash)
  have n: "\<not> 0 \<le> FeatureDefn_GetFieldIndex (m_poFeatureDefn ?l1) ''z_order''"
    by (simp add: FeatureDefn_GetFieldIndex_def)
  have 2: "AddComputedAttribute example_open example_prepare (Some 1) ?l1
     ''z_order'' OFTInteger ZOrderSQL = ([], Some 1, example_layer_computed_highway)"
    unfolding AddComputedAttribute_def Let_def
    using n
    by (simp add: d ZOrderSQL_placeholders r2 example_prepare_def SQLITE_OK_def)
      (simp add: example_layer_undeclared_def example_layer_computed_highway_def
        example_zorder_attribute_def)
  show ?thesis unfolding 1 by (rule 2)
qed

text \<open>
  On that layer, \<^verbatim>\<open>SetFieldsFromTags\<close> for the single tag highway=motorway leaves
  field 3, the computed \<^verbatim>\<open>highway\<close>, unset: the loop over the tags does not find the
  name in \<^verbatim>\<open>m_oMapFieldNameToIndex\<close>, and the expression of the attribute gives a null.
  The z-order, whose first input is bound to field 3, is 0.
\<close>

lemma example_layer_computed_highway_projection:
  "pauFields (fst (SetFieldsFromTags example_engine_null example_getters True
        example_layer_computed_highway (example_feature 42)
        [example_tag ''highway'' ''motorway''])) 3 = None"
  "pauFields (fst (SetFieldsFromTags example_engine_null example_getters True
        example_layer_computed_highway (example_feature 42)
        [example_tag ''highway'' ''motorway''])) 4 = Some (VInteger 0)"
proof -
  let ?ts = "[example_tag ''highway'' ''motorway'']"
  let ?l = "example_layer_computed_highway"
  let ?z = "example_zorder_attribute [3, -1, -1, -1, -1, -1]"
  define f1 where "f1 = SetFieldsFromTags_aggregate ?l True
    (SetFieldsFromTags_tags ?l True ?ts (example_feature 42, []))"
  have f1: "pauFields f1 3 = None" "pauFields f1 4 = None"
    by (simp_all add: f1_def SetFieldsFromTags_tag_def SetFieldsFromTags_aggregate_def Let_def
        example_layer_computed_highway_def example_tag_def example_feature_def
        GetFieldIndex_def AddInOtherOrAllTags_def SetField_def)
  have n: "EvaluateComputedAttribute example_engine_null example_getters ?l ?ts
             example_null_attribute f1 = (f1, example_null_attribute)"
    by (simp add: EvaluateComputedAttribute_def EvaluateGeneral_def Let_def sqlite3_step_def
        sqlite3_reset_def StoreResult_def example_engine_null_def example_null_attribute_def
        example_stmt_def)
  have z: "HardcodedZOrder example_getters ?z f1 ?ts = 0"
    using f1(1)
    by (simp add: HardcodedZOrder_def Let_def ZOrderInput_def IsFieldSetAndNotNull_def
        ZOrderHighway_def IsYesTrue1_def example_zorder_attribute_def example_tag_def)
  have attrs: "m_oComputedAttributes ?l = [example_null_attribute, ?z]"
    by (simp add: example_layer_computed_highway_def)
  have hz: "bHardcodedZOrder ?z" "nIndex ?z = 4"
    by (simp_all add: example_zorder_attribute_def)
  have ez: "EvaluateComputedAttribute example_engine_null example_getters ?l ?ts ?z f1
              = (SetField f1 4 (VInteger 0), ?z)"
    by (simp add: EvaluateComputedAttribute_def z hz)
  have all: "EvaluateComputedAttributes example_engine_null example_getters ?l ?ts
               [example_null_attribute, ?z] f1
              = (SetField f1 4 (VInteger 0), [example_null_attribute, ?z])"
    by (simp add: n ez)
  have e: "fst (SetFieldsFromTags example_engine_null example_getters True ?l
             (example_feature 42) ?ts) = SetField f1 4 (VInteger 0)"
    unfolding SetFieldsFromTags_def Let_def attrs f1_def [symmetric] all by simp
  show "pauFields (fst (SetFieldsFromTags example_engine_null example_getters True ?l
        (example_feature 42) ?ts)) 3 = None"
    unfolding e using f1 by (simp add: SetField_def)
  show "pauFields (fst (SetFieldsFromTags example_engine_null example_getters True ?l
        (example_feature 42) ?ts)) 4 = Some (VInteger 0)"
    unfolding e by (simp add: SetField_def)
qed

section \<open>Tags that name a field\<close>

lemma AddField_index:
  "m_oMapFieldNameToIndex (AddField b n l pszName eFieldType) pszName
     = Some (length (m_poFeatureDefn l))"
  by (simp add: AddField_def Let_def)

lemma AddField_definition:
  "m_poFeatureDefn (AddField b n l pszName eFieldType)
     = m_poFeatureDefn l @ [(GetLaunderedFieldName b n pszName, eFieldType)]"
  by (simp add: AddField_def Let_def)

lemma AddComputedAttribute_index:
  "m_oMapFieldNameToIndex (snd (snd (AddComputedAttribute sqlite3_open_v2 sqlite3_prepare_v2
      hDB l pszName eTypeIn pszSQL))) = m_oMapFieldNameToIndex l"
  by (simp add: AddComputedAttribute_def Let_def split: prod.splits)

lemma SetFieldsFromTags_tag_no_index:
  "m_oMapFieldNameToIndex l (pszK tag) = None \<Longrightarrow>
   fst (SetFieldsFromTags_tag l hs tag (f, buf)) = f"
  by (simp add: SetFieldsFromTags_tag_def Let_def GetFieldIndex_def)

text \<open>
  Claim C8, as amended. The loop looks the key of a tag up in \<^verbatim>\<open>m_oMapFieldNameToIndex\<close>,
  which holds the fields added by \<^verbatim>\<open>AddField\<close>, each under the name it was added with
  (the field definition has the laundered name) and with its index; a computed attribute
  is a field of the layer that \<^verbatim>\<open>AddComputedAttribute\<close> does not enter there. For a tag
  whose key is found there, with index \<open>i\<close>, other than the identifier field (\<open>i\<close> is not
  \<^verbatim>\<open>m_nIndexOSMId\<close>), the loop body stores the value of the tag into field \<open>i\<close>. Over
  the whole sequence, each such tag is stored in its turn, so after the loop field \<open>i\<close>
  holds the value of the last tag of the sequence whose key names it; it is the value of
  the given tag when no other tag of the sequence with a key naming field \<open>i\<close> has
  another value. A tag whose key is not found there is stored into no field.
\<close>

theorem SetFieldsFromTags_tag_stores_value:
  assumes "m_oMapFieldNameToIndex l (pszK tag) = Some i" and "int i \<noteq> m_nIndexOSMId l"
  shows "pauFields (fst (SetFieldsFromTags_tag l bTagsAsHSTORE tag (poFeature, osAllTagsBuffer))) (int i)
           = Some (VString (pszV tag))
    \<and> (tag \<in> set pasTags \<longrightarrow>
         (\<exists>u. u \<in> set pasTags
            \<and> find (\<lambda>u. m_oMapFieldNameToIndex l (pszK u) = Some i) (rev pasTags) = Some u
            \<and> pauFields (fst (SetFieldsFromTags_tags l bTagsAsHSTORE pasTags
                 (poFeature, osAllTagsBuffer))) (int i) = Some (VString (pszV u))))
    \<and> (tag \<in> set pasTags
         \<and> (\<forall>u\<in>set pasTags. m_oMapFieldNameToIndex l (pszK u) = Some i \<longrightarrow> pszV u = pszV tag) \<longrightarrow>
         pauFields (fst (SetFieldsFromTags_tags l bTagsAsHSTORE pasTags
           (poFeature, osAllTagsBuffer))) (int i) = Some (VString (pszV tag)))
    \<and> (m_oMapFieldNameToIndex l (pszK other) = None \<longrightarrow>
         fst (SetFieldsFromTags_tag l bTagsAsHSTORE other (poFeature, osAllTagsBuffer)) = poFeature)
    \<and> m_oMapFieldNameToIndex
         (AddField bAttributeNameLaundering sizeof_szLaunderedFieldName l0 pszName eFieldType) pszName
        = Some (length (m_poFeatureDefn l0))
    \<and> m_poFeatureDefn
         (AddField bAttributeNameLaundering sizeof_szLaunderedFieldName l0 pszName eFieldType)
        = m_poFeatureDefn l0 @
            [(GetLaunderedFieldName bAttributeNameLaundering sizeof_szLaunderedFieldName pszName,
              eFieldType)]
    \<and> m_oMapFieldNameToIndex (snd (snd (AddComputedAttribute sqlite3_open_v2 sqlite3_prepare_v2
         hDB l0 pszName eTypeIn pszSQL))) = m_oMapFieldNameToIndex l0"
proof -
  let ?P = "\<lambda>u. m_oMapFieldNameToIndex l (pszK u) = Some i"
  have step: "pauFields (fst (SetFieldsFromTags_tag l bTagsAsHSTORE tag (poFeature, osAllTagsBuffer))) (int i)
           = Some (VString (pszV tag))"
    using assms by (simp add: SetFieldsFromTags_tag_fields GetFieldIndex_eq_int)
  have loop: "pauFields (fst (SetFieldsFromTags_tags l bTagsAsHSTORE pasTags
                 (poFeature, osAllTagsBuffer))) (int i)
      = (case find ?P (rev pasTags) of Some u \<Rightarrow> Some (VString (pszV u))
         | None \<Rightarrow> pauFields poFeature (int i))"
    using assms(2) by (simp add: SetFieldsFromTags_tags_fields GetFieldIndex_eq_int)
  have found: "\<exists>u. find ?P (rev pasTags) = Some u \<and> u \<in> set pasTags \<and> ?P u"
    if "tag \<in> set pasTags"
  proof -
    from that assms(1) have "\<exists>u. u \<in> set (rev pasTags) \<and> ?P u" by auto
    then have "find ?P (rev pasTags) \<noteq> None"
      by (simp only: find_None_iff) blast
    then obtain u where u: "find ?P (rev pasTags) = Some u"
      by auto
    then have "u \<in> set (rev pasTags)" "?P u"
      by (auto dest: find_Some_set)
    with u show ?thesis by auto
  qed
  show ?thesis
  proof (intro conjI impI)
    show "pauFields (fst (SetFieldsFromTags_tag l bTagsAsHSTORE tag (poFeature, osAllTagsBuffer))) (int i)
           = Some (VString (pszV tag))" by (rule step)
  next
    assume "tag \<in> set pasTags"
    from found [OF this] loop
    show "\<exists>u. u \<in> set pasTags \<and> find ?P (rev pasTags) = Some u
            \<and> pauFields (fst (SetFieldsFromTags_tags l bTagsAsHSTORE pasTags
                 (poFeature, osAllTagsBuffer))) (int i) = Some (VString (pszV u))"
      by auto
  next
    assume a: "tag \<in> set pasTags
         \<and> (\<forall>u\<in>set pasTags. m_oMapFieldNameToIndex l (pszK u) = Some i \<longrightarrow> pszV u = pszV tag)"
    then have "tag \<in> set pasTags" by simp
    from found [OF this] obtain u where "find ?P (rev pasTags) = Some u" "u \<in> set pasTags" "?P u"
      by blast
    with a loop
    show "pauFields (fst (SetFieldsFromTags_tags l bTagsAsHSTORE pasTags
           (poFeature, osAllTagsBuffer))) (int i) = Some (VString (pszV tag))"
      by auto
  next
    assume "m_oMapFieldNameToIndex l (pszK other) = None"
    then show "fst (SetFieldsFromTags_tag l bTagsAsHSTORE other (poFeature, osAllTagsBuffer))
        = poFeature"
      by (rule SetFieldsFromTags_tag_no_index)
  next
    show "m_oMapFieldNameToIndex
         (AddField bAttributeNameLaundering sizeof_szLaunderedFieldName l0 pszName eFieldType) pszName
        = Some (length (m_poFeatureDefn l0))"
      by (rule AddField_index)
  next
    show "m_poFeatureDefn
         (AddField bAttributeNameLaundering sizeof_szLaunderedFieldName l0 pszName eFieldType)
        = m_poFeatureDefn l0 @
            [(GetLaunderedFieldName bAttributeNameLaundering sizeof_szLaunderedFieldName pszName,
              eFieldType)]"
      by (rule AddField_definition)
  next
    show "m_oMapFieldNameToIndex (snd (snd (AddComputedAttribute sqlite3_open_v2 sqlite3_prepare_v2
         hDB l0 pszName eTypeIn pszSQL))) = m_oMapFieldNameToIndex l0"
      by (rule AddComputedAttribute_index)
  qed
qed

text \<open>
  The theorem on the example layer, for the tags \<^verbatim>\<open>highway=residential\<close> and
  \<^verbatim>\<open>name=Main St\<close>: field 1 (highway) holds \<^verbatim>\<open>residential\<close>. The key \<^verbatim>\<open>bridge\<close> is not
  in \<^verbatim>\<open>m_oMapFieldNameToIndex\<close>, and a tag with this key leaves the feature as it is.
\<close>

theorem SetFieldsFromTags_tag_stores_value_witness:
  "m_oMapFieldNameToIndex example_layer (pszK (example_tag ''highway'' ''residential'')) = Some 1
   \<and> int 1 \<noteq> m_nIndexOSMId example_layer
   \<and> example_tag ''highway'' ''residential''
        \<in> set [example_tag ''highway'' ''residential'', example_tag ''name'' ''Main St'']
   \<and> pauFields (fst (SetFieldsFromTags_tag example_layer True
         (example_tag ''highway'' ''residential'') (example_feature 42, []))) (int 1)
        = Some (VString (pszV (example_tag ''highway'' ''residential'')))
   \<and> pauFields (fst (SetFieldsFromTags_tags example_layer True
         [example_tag ''highway'' ''residential'', example_tag ''name'' ''Main St'']
         (example_feature 42, []))) (int 1)
        = Some (VString (pszV (example_tag ''highway'' ''residential'')))
   \<and> pszV (example_tag ''highway'' ''residential'') = ''residential''
   \<and> m_oMapFieldNameToIndex example_layer (pszK (example_tag ''bridge'' ''yes'')) = None
   \<and> fst (SetFieldsFromTags_tag example_layer True (example_tag ''bridge'' ''yes'')
        (example_feature 42, [])) = example_feature 42"
proof -
  let ?t = "example_tag ''highway'' ''residential''"
  let ?ts = "[?t, example_tag ''name'' ''Main St'']"
  let ?o = "example_tag ''bridge'' ''yes''"
  have h: "m_oMapFieldNameToIndex example_layer (pszK ?t) = Some 1"
    "int 1 \<noteq> m_nIndexOSMId example_layer"
    by (simp_all add: example_layer_def example_tag_def)
  have m: "?t \<in> set ?ts" by simp
  have n: "m_oMapFieldNameToIndex example_layer (pszK (example_tag ''name'' ''Main St'')) \<noteq> Some 1"
    by (simp add: example_layer_def example_tag_def)
  have u: "\<forall>u\<in>set ?ts. m_oMapFieldNameToIndex example_layer (pszK u) = Some 1 \<longrightarrow> pszV u = pszV ?t"
    using n by simp
  have v: "pszV ?t = ''residential''" by (simp add: example_tag_def)
  have w: "m_oMapFieldNameToIndex example_layer (pszK ?o) = None"
    by (simp add: example_layer_def example_tag_def)
  note t = SetFieldsFromTags_tag_stores_value [OF h, where bTagsAsHSTORE = True
      and poFeature = "example_feature 42" and osAllTagsBuffer = "[]" and pasTags = ?ts
      and other = ?o]
  from t have 1: "pauFields (fst (SetFieldsFromTags_tag example_layer True ?t
      (example_feature 42, []))) (int 1) = Some (VString (pszV ?t))"
    by (rule conjunct1)
  from mp [OF t [THEN conjunct2, THEN conjunct2, THEN conjunct1] conjI [OF m u]]
  have 2: "pauFields (fst (SetFieldsFromTags_tags example_layer True ?ts
      (example_feature 42, []))) (int 1) = Some (VString (pszV ?t))" .
  from mp [OF t [THEN conjunct2, THEN conjunct2, THEN conjunct2, THEN conjunct1] w]
  have 3: "fst (SetFieldsFromTags_tag example_layer True ?o (example_feature 42, []))
      = example_feature 42" .
  from h m v w 1 2 3 show ?thesis by blast
qed

text \<open>
  The claim as it was stated fails for a field that is a computed attribute. The example
  layer with the computed \<^verbatim>\<open>highway\<close>, which three calls of \<^verbatim>\<open>AddField\<close> and two calls
  of \<^verbatim>\<open>AddComputedAttribute\<close> make, has a field named \<^verbatim>\<open>highway\<close>, field 3, which
  is not the identifier field; the value of the tag highway=motorway is not stored into
  it: field 3 is unset after the loop body, after the loop, and at the end of
  \<^verbatim>\<open>SetFieldsFromTags\<close>.
\<close>

theorem SetFieldsFromTags_tag_counterexample:
  "AddField True 256
     (AddField True 256
        (AddField True 256 example_layer_no_field ''osm_id'' OFTString)
        ''name'' OFTString)
     ''other_tags'' OFTString
     = example_layer_undeclared
   \<and> AddComputedAttribute example_open example_prepare (Some 1)
       (snd (snd (AddComputedAttribute example_open example_prepare None
          example_layer_undeclared ''highway'' OFTString ''SELECT NULL'')))
       ''z_order'' OFTInteger ZOrderSQL
     = ([], Some 1, example_layer_computed_highway)
   \<and> m_poFeatureDefn example_layer_computed_highway ! 3 = (''highway'', OFTString)
   \<and> FeatureDefn_GetFieldIndex (m_poFeatureDefn example_layer_computed_highway) ''highway'' = 3
   \<and> m_nIndexOSMId example_layer_computed_highway = 0
   \<and> pszK (example_tag ''highway'' ''motorway'') = ''highway''
   \<and> pauFields (example_feature 42) 3 = None
   \<and> pauFields (fst (SetFieldsFromTags_tag example_layer_computed_highway True
        (example_tag ''highway'' ''motorway'') (example_feature 42, []))) 3 = None
   \<and> pauFields (fst (SetFieldsFromTags_tags example_layer_computed_highway True
        [example_tag ''highway'' ''motorway''] (example_feature 42, []))) 3 = None
   \<and> pauFields (fst (SetFieldsFromTags example_engine_null example_getters True
        example_layer_computed_highway (example_feature 42)
        [example_tag ''highway'' ''motorway''])) 3 = None"
proof -
  have a: "m_poFeatureDefn example_layer_computed_highway ! 3 = (''highway'', OFTString)"
    "FeatureDefn_GetFieldIndex (m_poFeatureDefn example_layer_computed_highway) ''highway'' = 3"
    "m_nIndexOSMId example_layer_computed_highway = 0"
    "pszK (example_tag ''highway'' ''motorway'') = ''highway''"
    "pauFields (example_feature 42) 3 = None"
    by (simp_all add: example_layer_computed_highway_def FeatureDefn_GetFieldIndex_def
        example_tag_def example_feature_def)
  have b: "pauFields (fst (SetFieldsFromTags_tag example_layer_computed_highway True
        (example_tag ''highway'' ''motorway'') (example_feature 42, []))) 3 = None"
    by (simp add: SetFieldsFromTags_tag_def Let_def example_layer_computed_highway_def
        example_tag_def example_feature_def GetFieldIndex_def)
  then have c: "pauFields (fst (SetFieldsFromTags_tags example_layer_computed_highway True
        [example_tag ''highway'' ''motorway''] (example_feature 42, []))) 3 = None"
    by (simp add: split_beta)
  show ?thesis
    unfolding example_layer_undeclared_added example_layer_computed_highway_declared
      example_layer_computed_highway_projection(1)
    using a b c by simp
qed

section \<open>The hardcoded z-order\<close>
















section \<open>Computed attributes evaluated by the engine\<close>

lemma StoreResult_row:
  "StoreResult poFeature nIdx (SQLITE_ROW [SQLITE_INTEGER i]) = SetField poFeature nIdx (VInteger64 i)"
  "StoreResult poFeature nIdx (SQLITE_ROW [SQLITE_FLOAT d]) = SetField poFeature nIdx (VReal d)"
  "StoreResult poFeature nIdx (SQLITE_ROW [SQLITE_TEXT s]) = SetField poFeature nIdx (VString s)"
  by (simp_all add: StoreResult_def)

lemma StoreResult_none:
  "(\<forall>cols. res \<noteq> SQLITE_ROW cols) \<or> (\<exists>cols. res = SQLITE_ROW cols \<and> length cols \<noteq> 1)
   \<Longrightarrow> StoreResult poFeature nIdx res = poFeature"
  by (cases res) (auto simp: StoreResult_def)

lemma EvaluateGeneral_result:
  "EvaluateGeneral engine get l pasTags oAttr poFeature =
     (StoreResult poFeature (nIndex oAttr)
        (fst (sqlite3_step engine (BindParameters get l oAttr poFeature pasTags
                [0 ..< length (anIndexToBind oAttr)] (hStmt oAttr)))),
      oAttr\<lparr>hStmt := (BindParameters get l oAttr poFeature pasTags
                [0 ..< length (anIndexToBind oAttr)] (hStmt oAttr))\<lparr>stmt_stepped := False\<rparr>\<rparr>)"
  by (simp add: EvaluateGeneral_def Let_def sqlite3_step_def sqlite3_reset_def)

text \<open>
  Claim C6. For an attribute evaluated by the engine (not the hardcoded z-order), with
  \<open>res\<close> the outcome of \<^verbatim>\<open>sqlite3_step\<close> on the statement with its parameters bound: if
  \<open>res\<close> is a row with exactly one column, of type integer, float or text, the value
  of the column is stored in the field of the attribute with the overload of
  \<^verbatim>\<open>SetField\<close> for that type (64-bit integer, double, string); if \<open>res\<close> is not a row,
  or is a row with a number of columns other than one, the feature is left as it is, so
  the field stays unset if it was (a single column of another type, null or blob, is not
  stored either); and in every case the statement of the attribute, stepped by the
  evaluation, has been reset afterwards.
\<close>

theorem EvaluateComputedAttribute_general:
  assumes "\<not> bHardcodedZOrder oAttr"
    and "res = fst (sqlite3_step engine (BindParameters get l oAttr poFeature pasTags
                [0 ..< length (anIndexToBind oAttr)] (hStmt oAttr)))"
  shows "(res = SQLITE_ROW [SQLITE_INTEGER i] \<longrightarrow>
            fst (EvaluateComputedAttribute engine get l pasTags oAttr poFeature)
              = SetField poFeature (nIndex oAttr) (VInteger64 i))
    \<and> (res = SQLITE_ROW [SQLITE_FLOAT d] \<longrightarrow>
            fst (EvaluateComputedAttribute engine get l pasTags oAttr poFeature)
              = SetField poFeature (nIndex oAttr) (VReal d))
    \<and> (res = SQLITE_ROW [SQLITE_TEXT s] \<longrightarrow>
            fst (EvaluateComputedAttribute engine get l pasTags oAttr poFeature)
              = SetField poFeature (nIndex oAttr) (VString s))
    \<and> ((\<forall>cols. res \<noteq> SQLITE_ROW cols) \<or> (\<exists>cols. res = SQLITE_ROW cols \<and> length cols \<noteq> 1) \<longrightarrow>
            fst (EvaluateComputedAttribute engine get l pasTags oAttr poFeature) = poFeature
            \<and> (pauFields poFeature (nIndex oAttr) = None \<longrightarrow>
                 pauFields (fst (EvaluateComputedAttribute engine get l pasTags oAttr poFeature))
                   (nIndex oAttr) = None))
    \<and> (res = SQLITE_ROW [SQLITE_NULL] \<or> res = SQLITE_ROW [SQLITE_BLOB s] \<longrightarrow>
            fst (EvaluateComputedAttribute engine get l pasTags oAttr poFeature) = poFeature)
    \<and> \<not> stmt_stepped (hStmt (snd (EvaluateComputedAttribute engine get l pasTags oAttr poFeature)))
    \<and> stmt_stepped (snd (sqlite3_step engine (BindParameters get l oAttr poFeature pasTags
                [0 ..< length (anIndexToBind oAttr)] (hStmt oAttr))))"
proof -
  have e: "fst (EvaluateComputedAttribute engine get l pasTags oAttr poFeature)
      = StoreResult poFeature (nIndex oAttr) res"
    using assms by (simp add: EvaluateComputedAttribute_def EvaluateGeneral_result)
  have r: "\<not> stmt_stepped (hStmt (snd (EvaluateComputedAttribute engine get l pasTags oAttr poFeature)))"
    using assms(1) by (simp add: EvaluateComputedAttribute_def EvaluateGeneral_result)
  have s: "stmt_stepped (snd (sqlite3_step engine (BindParameters get l oAttr poFeature pasTags
                [0 ..< length (anIndexToBind oAttr)] (hStmt oAttr))))"
    by (simp add: sqlite3_step_def)
  have n: "StoreResult poFeature (nIndex oAttr) res = poFeature"
    if "(\<forall>cols. res \<noteq> SQLITE_ROW cols) \<or> (\<exists>cols. res = SQLITE_ROW cols \<and> length cols \<noteq> 1)"
    using that by (rule StoreResult_none)
  show ?thesis
    unfolding e using r s n by (auto simp: StoreResult_row StoreResult_def)
qed

text \<open>
  The theorem for the attribute \<^verbatim>\<open>SELECT [a] + [b]\<close> on the example engine: with the
  tags a=3 and b=4 the step gives the row 7, which is stored as a 64-bit integer in
  field 4; without tags the step gives no row and field 4 stays unset; the statement is
  reset both times.
\<close>

theorem EvaluateComputedAttribute_general_witness:
  "\<not> bHardcodedZOrder example_sum_attribute
   \<and> fst (sqlite3_step example_engine (BindParameters example_getters example_layer
        example_sum_attribute (example_feature 42) [example_tag ''a'' ''3'', example_tag ''b'' ''4'']
        [0 ..< length (anIndexToBind example_sum_attribute)] (hStmt example_sum_attribute)))
       = SQLITE_ROW [SQLITE_INTEGER 7]
   \<and> fst (EvaluateComputedAttribute example_engine example_getters example_layer
        [example_tag ''a'' ''3'', example_tag ''b'' ''4''] example_sum_attribute (example_feature 42))
       = SetField (example_feature 42) (nIndex example_sum_attribute) (VInteger64 7)
   \<and> \<not> stmt_stepped (hStmt (snd (EvaluateComputedAttribute example_engine example_getters
        example_layer [example_tag ''a'' ''3'', example_tag ''b'' ''4''] example_sum_attribute
        (example_feature 42))))
   \<and> fst (sqlite3_step example_engine (BindParameters example_getters example_layer
        example_sum_attribute (example_feature 42) []
        [0 ..< length (anIndexToBind example_sum_attribute)] (hStmt example_sum_attribute)))
       = SQLITE_DONE
   \<and> fst (EvaluateComputedAttribute example_engine example_getters example_layer
        [] example_sum_attribute (example_feature 42)) = example_feature 42
   \<and> \<not> stmt_stepped (hStmt (snd (EvaluateComputedAttribute example_engine example_getters
        example_layer [] example_sum_attribute (example_feature 42))))"
proof -
  let ?ts = "[example_tag ''a'' ''3'', example_tag ''b'' ''4'']"
  have upt: "[0 ..< length (anIndexToBind example_sum_attribute)] = [0, 1]"
    by (simp add: example_sum_attribute_def upt_rec)
  have h: "\<not> bHardcodedZOrder example_sum_attribute"
    by (simp add: example_sum_attribute_def)
  have r1: "fst (sqlite3_step example_engine (BindParameters example_getters example_layer
        example_sum_attribute (example_feature 42) ?ts
        [0 ..< length (anIndexToBind example_sum_attribute)] (hStmt example_sum_attribute)))
       = SQLITE_ROW [SQLITE_INTEGER 7]"
    unfolding upt
    by (simp add: sqlite3_step_def sqlite3_bind_def BoundValue_def Let_def example_engine_def
        example_sum_attribute_def example_stmt_def example_tag_def decimal_value_def isspace_def
        isdigit_def)
  have r2: "fst (sqlite3_step example_engine (BindParameters example_getters example_layer
        example_sum_attribute (example_feature 42) []
        [0 ..< length (anIndexToBind example_sum_attribute)] (hStmt example_sum_attribute)))
       = SQLITE_DONE"
    unfolding upt
    by (simp add: sqlite3_step_def sqlite3_bind_def BoundValue_def Let_def example_engine_def
        example_sum_attribute_def example_stmt_def)
  from EvaluateComputedAttribute_general [OF h r1 [symmetric], of 7]
  have a: "fst (EvaluateComputedAttribute example_engine example_getters example_layer
        ?ts example_sum_attribute (example_feature 42))
       = SetField (example_feature 42) (nIndex example_sum_attribute) (VInteger64 7)"
    and b: "\<not> stmt_stepped (hStmt (snd (EvaluateComputedAttribute example_engine example_getters
        example_layer ?ts example_sum_attribute (example_feature 42))))"
    by blast+
  from EvaluateComputedAttribute_general [OF h r2 [symmetric]]
  have c: "fst (EvaluateComputedAttribute example_engine example_getters example_layer
        [] example_sum_attribute (example_feature 42)) = example_feature 42"
    and d: "\<not> stmt_stepped (hStmt (snd (EvaluateComputedAttribute example_engine example_getters
        example_layer [] example_sum_attribute (example_feature 42))))"
    by blast+
  from h r1 r2 a b c d show ?thesis by blast
qed

end
